theory Spec2Isabelle
  imports Main "HOL-Library.Char_ord" "HOL-Library.List_Lexorder"
begin

section \<open>Data model (internal/model/policy.go, internal/eval/engine.go)\<close>

text \<open>
  A \<open>uuid.UUID\<close> is represented by its canonical text \<open>ID.String()\<close>, which determines it;
  \<open>strings.Compare\<close> on two such texts is the lexicographic order of \<open>string\<close> (bytes
  compared by their codes).  A \<open>time.Time\<close> is the instant it denotes (nanoseconds), which
  is all that \<open>Equal\<close> and \<open>Before\<close> read.  Go's \<open>int\<close> is modelled by \<open>int\<close>: the only
  arithmetic of the engine is \<open>len(pattern) - wildcards * 10\<close>, which cannot leave 64 bits
  for a string that fits in memory.
\<close>

type_synonym uuid = string
type_synonym time = int

text \<open>A JSON document (\<open>datatypes.JSON\<close>, \<open>map[string]any\<close>), already parsed.\<close>

datatype json =
    JNull
  | JBool bool
  | JNum int
  | JStr string
  | JArr "json list"
  | JObj "(string \<times> json) list"

record Policy =
  ID :: uuid
  Name :: string
  Effect :: string
  Provider :: string
  Resource :: string
  Actions :: "string list"
  Condition :: "json option"
  Expr :: string
  Metadata :: "json option"
  Enabled :: bool
  Priority :: int
  Version :: int
  CreatedAt :: time
  UpdatedAt :: time

record Request =
  Subject :: "(string \<times> json) list"
  ReqResource :: string
  Action :: string
  ReqMetadata :: "(string \<times> json) list"
  Protocol :: string
  Platform :: string
  Cloud :: string

record TraceItem =
  PolicyID :: uuid
  Result :: "bool option"
  TraceEffect :: string
  Reason :: string
  Error :: string

text \<open>
  The audit row as \<open>persistAudit\<close> builds it; its own identity and creation time are
  assigned by the database and read by nothing in the engine.
\<close>

record PolicyAudit =
  AuditRequest :: Request
  Decision :: string
  MatchedID :: "uuid option"
  Trace :: "TraceItem list"

section \<open>The libraries the engine calls\<close>

text \<open>
  cel-go, gobwas/glob and the database driver are not part of the repository.  They are
  parameters of the model: every theorem that quantifies over them holds whatever they
  compute.

  A compiled \<open>cel.Program\<close> is the function \<open>Eval\<close> runs on the request's bindings: it
  returns a runtime error or a value, of which the engine only asks whether it is a
  \<open>bool\<close>.
\<close>

datatype cel_val = CelBool bool | CelNonBool

type_synonym program = "Request \<Rightarrow> string + cel_val"

datatype cel_type = decls_String | decls_Dyn | NewMapType cel_type cel_type

datatype decl = NewConst string cel_type | NewVar string cel_type

text \<open>A \<open>cel.Env\<close>: its three methods, each returning its issues (\<open>Inl\<close>) or its result.\<close>

record 'ast Env =
  Parse :: "string \<Rightarrow> string + 'ast"
  Check :: "'ast \<Rightarrow> string + 'ast"
  Program :: "'ast \<Rightarrow> string + program"

text \<open>\<open>cel.NewEnv(cel.Declarations(...))\<close>.\<close>

type_synonym 'ast cel = "decl list \<Rightarrow> string + 'ast Env"

text \<open>\<open>glob.Compile\<close>: an error, or the compiled pattern's \<open>Match\<close>.\<close>

type_synonym glob = "string \<Rightarrow> string + (string \<Rightarrow> bool)"

text \<open>
  The database behind \<open>*gorm.DB\<close>: the two tables, and the outcomes of the coming
  operations.  Each operation draws the head of \<open>faults\<close>: \<open>Some msg\<close> makes it fail with
  that error, \<open>None\<close> (or an exhausted schedule) lets it succeed.  A query without
  \<open>ORDER BY\<close> returns its rows in the order of the table's list, so every order the
  database may choose is some state of the model.
\<close>

record DB =
  policies :: "Policy list"
  policy_audits :: "PolicyAudit list"
  faults :: "string option list"

text \<open>
  The engine's \<open>db\<close> handle and its \<open>cache\<close> (a \<open>sync.Map\<close>) are references to objects
  that the handlers share and that calls mutate: they form the state that every call
  takes and returns.  What \<open>NewEvalEngine\<close> fixes stays in the engine record.
\<close>

record state =
  db :: DB
  cache :: "uuid \<rightharpoonup> program"

record 'ast EvalEngine =
  env :: "'ast Env"
  failClosed :: bool

datatype 'a outcome = Panic string | Returned 'a

text \<open>
  What \<open>evaluate\<close> returns: decision, matched policy, reason, trace, error.
\<close>

type_synonym result = "string \<times> uuid option \<times> string \<times> TraceItem list \<times> string option"

definition db_op :: "state \<Rightarrow> string option \<times> state" where
  "db_op s =
     (case faults (db s) of
        [] \<Rightarrow> (None, s)
      | f # fs \<Rightarrow> (f, s\<lparr>db := (db s)\<lparr>faults := fs\<rparr>\<rparr>))"

section \<open>internal/eval/engine.go\<close>

definition engine_decls :: "decl list" where
  "engine_decls =
     [NewConst ''subject'' (NewMapType decls_String decls_Dyn),
      NewConst ''resource'' decls_String,
      NewConst ''action'' decls_String,
      NewConst ''metadata'' (NewMapType decls_String decls_Dyn),
      NewConst ''protocol'' decls_String,
      NewConst ''platform'' decls_String,
      NewConst ''cloud'' decls_String]"

definition NewEvalEngine :: "'ast cel \<Rightarrow> bool \<Rightarrow> string + 'ast EvalEngine" where
  "NewEvalEngine lib fc =
     (case lib engine_decls of
        Inl err \<Rightarrow> Inl err
      | Inr ev \<Rightarrow> Inr \<lparr>env = ev, failClosed = fc\<rparr>)"

definition compileOrGet ::
  "'ast EvalEngine \<Rightarrow> uuid \<Rightarrow> string \<Rightarrow> state \<Rightarrow> (string + program) \<times> state" where
  "compileOrGet e pid expr s =
     (case cache s pid of
        Some prog \<Rightarrow> (Inr prog, s)
      | None \<Rightarrow>
          (case Parse (env e) expr of
             Inl err \<Rightarrow> (Inl err, s)
           | Inr ast \<Rightarrow>
               (case Check (env e) ast of
                  Inl err \<Rightarrow> (Inl err, s)
                | Inr checked \<Rightarrow>
                    (case Program (env e) checked of
                       Inl err \<Rightarrow> (Inl err, s)
                     | Inr prog \<Rightarrow> (Inr prog, s\<lparr>cache := (cache s)(pid \<mapsto> prog)\<rparr>)))))"

text \<open>\<open>'%s'\<close> in a format string.\<close>

definition quoted :: "string \<Rightarrow> string" where
  "quoted s = CHR 0x27 # s @ [CHR 0x27]"

text \<open>
  \<open>json.Unmarshal(p.Metadata, &m)\<close> into a \<open>map[string]any\<close>: an object gives its map (a
  repeated key keeps its last value), \<open>null\<close> gives the nil map, anything else is an error.
\<close>

definition Unmarshal_map :: "json \<Rightarrow> (string \<rightharpoonup> json) option" where
  "Unmarshal_map j =
     (case j of
        JObj kvs \<Rightarrow> Some (map_of (rev kvs))
      | JNull \<Rightarrow> Some Map.empty
      | _ \<Rightarrow> None)"

definition metadata_string :: "Policy \<Rightarrow> string \<Rightarrow> string option" where
  "metadata_string p key =
     (case Metadata p of
        None \<Rightarrow> None
      | Some raw \<Rightarrow>
          (case Unmarshal_map raw of
             None \<Rightarrow> None
           | Some m \<Rightarrow>
               (case m key of
                  Some (JStr v) \<Rightarrow> if v \<noteq> [] then Some v else None
                | _ \<Rightarrow> None)))"

definition policyMessageOrDefault :: "Policy \<Rightarrow> string \<Rightarrow> string" where
  "policyMessageOrDefault p defaultMsg =
     (case metadata_string p ''message'' of Some v \<Rightarrow> v | None \<Rightarrow> defaultMsg)"

definition policyNonMatchReason :: "Policy \<Rightarrow> string" where
  "policyNonMatchReason p =
     (case metadata_string p ''non_match_message'' of
        Some v \<Rightarrow> v
      | None \<Rightarrow> ''conditions not met'')"

text \<open>
  \<open>resourceMatch\<close>.  \<open>glob.MustCompile\<close> panics where \<open>glob.Compile\<close> returns an error.
  \<open>globCache\<close> memoises \<open>Compile\<close>, a function of the pattern alone, so a hit returns what a
  miss computes and the cache is left out.
\<close>

definition resourceMatch :: "glob \<Rightarrow> string \<Rightarrow> string \<Rightarrow> bool outcome" where
  "resourceMatch gl pattern v =
     (if pattern = [] \<or> pattern = ''*'' then Returned True
      else (case gl pattern of
              Inl err \<Rightarrow> Panic err
            | Inr g \<Rightarrow> Returned (g v)))"

text \<open>
  \<open>computeSpecificity\<close>.  \<open>len\<close> counts bytes; the loop runs over runes, and a rune is
  \<open>*\<close> or \<open>?\<close> exactly where a byte is (both are ASCII).
\<close>

definition computeSpecificity :: "string \<Rightarrow> int" where
  "computeSpecificity pattern =
     (if pattern = [] then 0
      else int (length pattern)
           - int (length (filter (\<lambda>r. r = CHR ''*'' \<or> r = CHR ''?'') pattern)) * 10)"

text \<open>
  \<open>loadPolicies\<close>: \<open>enabled AND provider = ? AND (? = ANY(actions) OR actions is empty)\<close>,
  the second conjunct only for a non-empty action.
\<close>

definition loadPolicies :: "string \<Rightarrow> string \<Rightarrow> state \<Rightarrow> (string + Policy list) \<times> state" where
  "loadPolicies provider action s =
     (case db_op s of
        (Some err, s') \<Rightarrow> (Inl err, s')
      | (None, s') \<Rightarrow>
          (Inr (filter (\<lambda>p. Enabled p \<and> Provider p = provider \<and>
                            (action = [] \<or> action \<in> set (Actions p) \<or> Actions p = []))
                  (policies (db s'))), s'))"

definition evaluatePolicy ::
  "'ast EvalEngine \<Rightarrow> Policy \<Rightarrow> Request \<Rightarrow> state \<Rightarrow> result \<times> state" where
  "evaluatePolicy e p req s =
     (case compileOrGet e (ID p) (Expr p) s of
        (Inl err, s') \<Rightarrow>
          (let traceOut = [\<lparr>PolicyID = ID p, Result = None, TraceEffect = Effect p,
                             Reason = ''policy expression failed to compile'',
                             Error = ''compile: '' @ err\<rparr>]
           in if failClosed e
              then ((''deny'', Some (ID p),
                     ''Access denied by policy '' @ quoted (Name p) @ '': expression failed to compile'',
                     traceOut, None), s')
              else ((''allow'', None, ''expression failed to compile (fail-open)'',
                     traceOut, Some err), s'))
      | (Inr prog, s') \<Rightarrow>
          (case prog req of
             Inl evalErr \<Rightarrow>
               (let traceOut = [\<lparr>PolicyID = ID p, Result = None, TraceEffect = Effect p,
                                  Reason = ''policy evaluation runtime error'',
                                  Error = ''runtime: '' @ evalErr\<rparr>]
                in if failClosed e
                   then ((''deny'', Some (ID p),
                          ''Access denied by policy '' @ quoted (Name p) @ '': runtime error during evaluation'',
                          traceOut, None), s')
                   else ((''allow'', None, ''runtime error (fail-open)'', traceOut, Some evalErr), s'))
           | Inr CelNonBool \<Rightarrow>
               (let traceOut = [\<lparr>PolicyID = ID p, Result = None, TraceEffect = Effect p,
                                  Reason = ''policy expression did not return boolean'',
                                  Error = ''non-boolean result''\<rparr>]
                in if failClosed e
                   then ((''deny'', Some (ID p),
                          ''Access denied by policy '' @ quoted (Name p) @ '': expression did not return true/false'',
                          traceOut, None), s')
                   else ((''allow'', None, ''non-boolean result (fail-open)'', traceOut, None), s'))
           | Inr (CelBool b) \<Rightarrow>
               (if b then
                  (if Effect p = ''deny'' then
                     (let r = policyMessageOrDefault p (''Access denied by policy '' @ quoted (Name p))
                      in ((''deny'', Some (ID p), r,
                           [\<lparr>PolicyID = ID p, Result = Some b, TraceEffect = Effect p,
                             Reason = r, Error = []\<rparr>], None), s'))
                   else if Effect p = ''allow'' then
                     (let r = policyMessageOrDefault p (''Access allowed by policy '' @ quoted (Name p))
                      in ((''allow'', Some (ID p), r,
                           [\<lparr>PolicyID = ID p, Result = Some b, TraceEffect = Effect p,
                             Reason = r, Error = []\<rparr>], None), s'))
                   else (([], None, [], [], None), s'))
                else
                  (([], None, [],
                    [\<lparr>PolicyID = ID p, Result = Some b, TraceEffect = Effect p,
                      Reason = policyNonMatchReason p, Error = []\<rparr>], None), s'))))"

text \<open>
  The loops of \<open>evaluate\<close> leave either through a \<open>return\<close> (\<open>Exit\<close>) or at the end of
  the slice (\<open>Next\<close>, with the variables the rest of the function reads).
\<close>

datatype 'a step = Exit result | Next 'a

text \<open>Lines 102-113: the global policies, in the order \<open>loadPolicies\<close> returned them.\<close>

fun globalLoop ::
  "glob \<Rightarrow> 'ast EvalEngine \<Rightarrow> Request \<Rightarrow> Policy list \<Rightarrow> TraceItem list \<Rightarrow> state
   \<Rightarrow> (TraceItem list step) outcome \<times> state" where
  "globalLoop gl e req [] traceOut s = (Returned (Next traceOut), s)"
| "globalLoop gl e req (p # ps) traceOut s =
     (case resourceMatch gl (Resource p) (ReqResource req) of
        Panic msg \<Rightarrow> (Panic msg, s)
      | Returned False \<Rightarrow> globalLoop gl e req ps traceOut s
      | Returned True \<Rightarrow>
          (case evaluatePolicy e p req s of
             ((res, matched, reason, trace, err), s') \<Rightarrow>
               (if err \<noteq> None then (Returned (Exit (res, matched, reason, traceOut @ trace, err)), s')
                else if res = ''deny''
                then (Returned (Exit (''deny'', matched, reason, traceOut @ trace, None)), s')
                else globalLoop gl e req ps (traceOut @ trace) s')))"

record candidate =
  cand_p :: Policy
  cand_sp :: int

text \<open>Lines 135-140.\<close>

fun collectCands ::
  "glob \<Rightarrow> Request \<Rightarrow> Policy list \<Rightarrow> candidate list \<Rightarrow> (candidate list) outcome" where
  "collectCands gl req [] cands = Returned cands"
| "collectCands gl req (p # ps) cands =
     (case resourceMatch gl (Resource p) (ReqResource req) of
        Panic msg \<Rightarrow> Panic msg
      | Returned False \<Rightarrow> collectCands gl req ps cands
      | Returned True \<Rightarrow>
          collectCands gl req ps
            (cands @ [\<lparr>cand_p = p, cand_sp = computeSpecificity (Resource p)\<rparr>]))"

text \<open>The \<open>less\<close> function handed to \<open>sort.Slice\<close>, lines 142-153.\<close>

definition cand_less :: "candidate \<Rightarrow> candidate \<Rightarrow> bool" where
  "cand_less ci cj =
     (if Priority (cand_p ci) \<noteq> Priority (cand_p cj)
      then Priority (cand_p ci) < Priority (cand_p cj)
      else if cand_sp ci \<noteq> cand_sp cj
      then cand_sp ci > cand_sp cj
      else if CreatedAt (cand_p ci) \<noteq> CreatedAt (cand_p cj)
      then CreatedAt (cand_p ci) < CreatedAt (cand_p cj)
      else ID (cand_p ci) < ID (cand_p cj))"

text \<open>
  \<open>sort.Slice\<close> is an unstable comparison sort.  It is modelled by insertion sort; the
  two agree on every slice no two elements of which compare as equal, since a list has
  only one sorted arrangement then (\<open>sorted_arrangement_unique\<close> below, for \<open>cand_less\<close>
  and candidates with distinct identities).
\<close>

fun insert_by :: "('a \<Rightarrow> 'a \<Rightarrow> bool) \<Rightarrow> 'a \<Rightarrow> 'a list \<Rightarrow> 'a list" where
  "insert_by lt x [] = [x]"
| "insert_by lt x (y # ys) = (if lt x y then x # y # ys else y # insert_by lt x ys)"

definition sort_Slice :: "('a \<Rightarrow> 'a \<Rightarrow> bool) \<Rightarrow> 'a list \<Rightarrow> 'a list" where
  "sort_Slice lt xs = foldr (insert_by lt) xs []"

text \<open>Lines 155-169: the sorted candidates, with \<open>allowWinner\<close>.\<close>

fun providerLoop ::
  "'ast EvalEngine \<Rightarrow> Request \<Rightarrow> candidate list \<Rightarrow> TraceItem list \<Rightarrow> Policy option \<Rightarrow> state
   \<Rightarrow> (TraceItem list \<times> Policy option) step \<times> state" where
  "providerLoop e req [] traceOut allowWinner s = (Next (traceOut, allowWinner), s)"
| "providerLoop e req (c # cs) traceOut allowWinner s =
     (case evaluatePolicy e (cand_p c) req s of
        ((res, matched, reason, trace, err), s') \<Rightarrow>
          (if err \<noteq> None then (Exit (res, matched, reason, traceOut @ trace, err), s')
           else if res = ''deny'' then (Exit (''deny'', matched, reason, traceOut @ trace, None), s')
           else providerLoop e req cs (traceOut @ trace)
                  (if res = ''allow'' then Some (cand_p c) else allowWinner) s'))"

text \<open>Lines 123-175: the provider layer, for the provider that lines 116-119 chose.\<close>

definition providerLayer ::
  "glob \<Rightarrow> 'ast EvalEngine \<Rightarrow> Request \<Rightarrow> string \<Rightarrow> TraceItem list \<Rightarrow> state
   \<Rightarrow> result outcome \<times> state" where
  "providerLayer gl e req provider traceOut s =
     (case loadPolicies provider (Action req) s of
        (Inl err, s1) \<Rightarrow>
          (if failClosed e
           then (Returned (''deny'', None, ''database error: '' @ err, traceOut, Some err), s1)
           else (Returned (''allow'', None, ''database error (fail-open)'', traceOut, Some err), s1))
      | (Inr providerPolicies, s1) \<Rightarrow>
          (case collectCands gl req providerPolicies [] of
             Panic msg \<Rightarrow> (Panic msg, s1)
           | Returned cands \<Rightarrow>
               (case providerLoop e req (sort_Slice cand_less cands) traceOut None s1 of
                  (Exit r, s2) \<Rightarrow> (Returned r, s2)
                | (Next (traceOut', Some w), s2) \<Rightarrow>
                    (Returned (''allow'', Some (ID w),
                       policyMessageOrDefault w (''Access allowed by policy '' @ quoted (Name w)),
                       traceOut', None), s2)
                | (Next (traceOut', None), s2) \<Rightarrow>
                    (Returned (''deny'', None,
                       ''Access denied: no allow policy matched for action '' @ quoted (Action req)
                         @ '' on resource '' @ quoted (ReqResource req),
                       traceOut', None), s2))))"

definition evaluate ::
  "glob \<Rightarrow> 'ast EvalEngine \<Rightarrow> Request \<Rightarrow> state \<Rightarrow> result outcome \<times> state" where
  "evaluate gl e req s =
     (case loadPolicies ''global'' (Action req) s of
        (Inl err, s1) \<Rightarrow>
          (if failClosed e
           then (Returned (''deny'', None, ''database error: '' @ err, [], Some err), s1)
           else (Returned (''allow'', None, ''database error (fail-open)'', [], Some err), s1))
      | (Inr globalPolicies, s1) \<Rightarrow>
          (case globalLoop gl e req globalPolicies [] s1 of
             (Panic msg, s2) \<Rightarrow> (Panic msg, s2)
           | (Returned (Exit r), s2) \<Rightarrow> (Returned r, s2)
           | (Returned (Next traceOut), s2) \<Rightarrow>
               (let provider = Cloud req;
                    provider = (if provider = [] \<or> provider = ''none'' then Protocol req else provider)
                in if provider = []
                   then (Returned (''deny'', None, ''Access denied: no provider specified'',
                                   traceOut, None), s2)
                   else providerLayer gl e req provider traceOut s2)))"

text \<open>\<open>persistAudit\<close>: one insert into \<open>policy_audits\<close>; it returns the insert's error.\<close>

definition persistAudit ::
  "Request \<Rightarrow> string \<Rightarrow> uuid option \<Rightarrow> TraceItem list \<Rightarrow> state \<Rightarrow> string option \<times> state" where
  "persistAudit req decision matched trace s =
     (let a = \<lparr>AuditRequest = req, Decision = decision, MatchedID = matched, Trace = trace\<rparr>
      in case db_op s of
           (Some err, s') \<Rightarrow> (Some err, s')
         | (None, s') \<Rightarrow>
             (None, s'\<lparr>db := (db s')\<lparr>policy_audits := policy_audits (db s') @ [a]\<rparr>\<rparr>))"

text \<open>\<open>EvaluateAndAudit\<close>: a panic of \<open>evaluate\<close> passes through it, and nothing is written.\<close>

definition EvaluateAndAudit ::
  "glob \<Rightarrow> 'ast EvalEngine \<Rightarrow> Request \<Rightarrow> state \<Rightarrow> result outcome \<times> state" where
  "EvaluateAndAudit gl e req s =
     (case evaluate gl e req s of
        (Panic msg, s1) \<Rightarrow> (Panic msg, s1)
      | (Returned (decision, matched, reason, trace, err), s1) \<Rightarrow>
          (case persistAudit req decision matched trace s1 of
             (_, s2) \<Rightarrow> (Returned (decision, matched, reason, trace, err), s2)))"

section \<open>internal/policy/validate.go, internal/model/hooks.go\<close>

definition validate_decls :: "decl list" where
  "validate_decls =
     [NewConst ''subject'' (NewMapType decls_String decls_Dyn),
      NewConst ''resource'' decls_String,
      NewConst ''action'' decls_String,
      NewConst ''metadata'' (NewMapType decls_String decls_Dyn),
      NewConst ''protocol'' decls_String,
      NewConst ''platform'' decls_String,
      NewConst ''cloud'' decls_String,
      NewVar ''request'' (NewMapType decls_String decls_Dyn)]"

text \<open>\<open>ValidateCEL\<close> returns an error (\<open>Some\<close>) or \<open>nil\<close>.\<close>

definition ValidateCEL :: "'ast cel \<Rightarrow> string \<Rightarrow> string option" where
  "ValidateCEL lib expr =
     (if expr = [] then Some ''expr must not be empty''
      else (case lib validate_decls of
              Inl err \<Rightarrow> Some err
            | Inr ev \<Rightarrow>
                (case Parse ev expr of
                   Inl err \<Rightarrow> Some err
                 | Inr ast \<Rightarrow>
                     (case Check ev ast of
                        Inl err \<Rightarrow> Some err
                      | Inr checked \<Rightarrow>
                          (case Program ev checked of
                             Inl err \<Rightarrow> Some err
                           | Inr prog \<Rightarrow> None)))))"

definition BeforeCreate :: "'ast cel \<Rightarrow> Policy \<Rightarrow> string option" where
  "BeforeCreate lib p = ValidateCEL lib (Expr p)"

text \<open>\<open>BeforeUpdate\<close>; the flag is \<open>tx.Statement.Changed("Expr")\<close>.\<close>

definition BeforeUpdate :: "'ast cel \<Rightarrow> Policy \<Rightarrow> bool \<Rightarrow> string option" where
  "BeforeUpdate lib p changed_Expr = (if changed_Expr then ValidateCEL lib (Expr p) else None)"

section \<open>internal/httpapi/policies.go\<close>

text \<open>
  The calls into gorm.  \<open>Create\<close> runs the \<open>BeforeCreate\<close> hook and then inserts; the row
  the database stores and returns for a struct (its generated identity, column defaults
  and timestamps) is the parameter \<open>stored\<close>.  \<open>First\<close> reads one row by identity.
  \<open>Model(&existing).Select(...).Updates(in)\<close> runs the \<open>BeforeUpdate\<close> hook and then
  writes the selected columns of \<open>in\<close>, and the current time into \<open>updated_at\<close>, to the
  rows with the identity of \<open>existing\<close>; which of the two structs gorm hands to the hook
  is the parameter \<open>hookv\<close>.
\<close>

datatype gorm_error = ErrRecordNotFound | DriverError string

fun Error_text :: "gorm_error \<Rightarrow> string" where
  "Error_text ErrRecordNotFound = ''record not found''"
| "Error_text (DriverError msg) = msg"

definition DB_Create ::
  "'ast cel \<Rightarrow> (Policy \<Rightarrow> Policy) \<Rightarrow> Policy \<Rightarrow> state \<Rightarrow> (string + Policy) \<times> state" where
  "DB_Create lib stored p s =
     (case BeforeCreate lib p of
        Some err \<Rightarrow> (Inl err, s)
      | None \<Rightarrow>
          (case db_op s of
             (Some err, s') \<Rightarrow> (Inl err, s')
           | (None, s') \<Rightarrow>
               (Inr (stored p), s'\<lparr>db := (db s')\<lparr>policies := policies (db s') @ [stored p]\<rparr>\<rparr>)))"

definition DB_First :: "uuid \<Rightarrow> state \<Rightarrow> (gorm_error + Policy) \<times> state" where
  "DB_First pid s =
     (case db_op s of
        (Some err, s') \<Rightarrow> (Inl (DriverError err), s')
      | (None, s') \<Rightarrow>
          (case find (\<lambda>row. ID row = pid) (policies (db s')) of
             None \<Rightarrow> (Inl ErrRecordNotFound, s')
           | Some row \<Rightarrow> (Inr row, s')))"

definition selected_columns :: "Policy \<Rightarrow> Policy \<Rightarrow> Policy" where
  "selected_columns inp row =
     row\<lparr>Name := Name inp, Effect := Effect inp, Provider := Provider inp,
         Resource := Resource inp, Actions := Actions inp, Expr := Expr inp,
         Metadata := Metadata inp, Enabled := Enabled inp, Priority := Priority inp,
         Version := Version inp\<rparr>"

definition DB_Updates ::
  "'ast cel \<Rightarrow> (Policy \<Rightarrow> Policy \<Rightarrow> Policy) \<Rightarrow> Policy \<Rightarrow> Policy \<Rightarrow> time \<Rightarrow> state
   \<Rightarrow> string option \<times> state" where
  "DB_Updates lib hookv existing inp now s =
     (case BeforeUpdate lib (hookv existing inp) (Expr inp \<noteq> Expr existing) of
        Some err \<Rightarrow> (Some err, s)
      | None \<Rightarrow>
          (case db_op s of
             (Some err, s') \<Rightarrow> (Some err, s')
           | (None, s') \<Rightarrow>
               (None,
                s'\<lparr>db := (db s')\<lparr>policies :=
                      map (\<lambda>row. if ID row = ID existing
                                  then (selected_columns inp row)\<lparr>UpdatedAt := now\<rparr>
                                  else row)
                        (policies (db s'))\<rparr>\<rparr>)))"

text \<open>What a handler reads of the HTTP request; \<open>Body\<close> is \<open>None\<close> when it fails to decode.\<close>

record http_request =
  URL_Path :: string
  Query_provider :: string
  Body :: "Policy option"

datatype response = http_Error nat string | http_JSON nat Policy

text \<open>The handler's \<open>Engine\<close> field: whether it is non-nil.\<close>

record PolicyHandler =
  Engine :: bool

definition Invalidate :: "uuid \<Rightarrow> state \<Rightarrow> state" where
  "Invalidate pid s = s\<lparr>cache := (cache s)(pid := None)\<rparr>"

definition uuid_Nil :: uuid where
  "uuid_Nil = ''00000000-0000-0000-0000-000000000000''"

definition valid_provider :: "string \<Rightarrow> bool" where
  "valid_provider pr = (pr \<in> set [''aws'', ''gcp'', ''database'', ''ssh'', ''rdp'', ''global''])"

definition Create ::
  "'ast cel \<Rightarrow> (Policy \<Rightarrow> Policy) \<Rightarrow> PolicyHandler \<Rightarrow> http_request \<Rightarrow> state
   \<Rightarrow> response \<times> state" where
  "Create lib stored h r s =
     (case Body r of
        None \<Rightarrow> (http_Error 400 ''bad request'', s)
      | Some p \<Rightarrow>
          (if Query_provider r \<noteq> [] \<and> \<not> valid_provider (Query_provider r)
           then (http_Error 400 ''invalid provider'', s)
           else
             (let p = p\<lparr>Provider := (if Query_provider r \<noteq> [] then Query_provider r
                                       else ''global'')\<rparr>;
                  p = p\<lparr>ID := uuid_Nil\<rparr>
              in case DB_Create lib stored p s of
                   (Inl err, s1) \<Rightarrow> (http_Error 400 err, s1)
                 | (Inr p', s1) \<Rightarrow>
                     (http_JSON 201 p', if Engine h then Invalidate (ID p') s1 else s1))))"

definition tailID :: "string \<Rightarrow> string \<Rightarrow> string option" where
  "tailID path prefix =
     (if take (length prefix) path \<noteq> prefix then None
      else (let i = drop (length prefix) path;
                i = (if i \<noteq> [] \<and> last i = CHR ''/'' then butlast i else i)
            in if i = [] then None else Some i))"

definition Update ::
  "'ast cel \<Rightarrow> (Policy \<Rightarrow> Policy \<Rightarrow> Policy) \<Rightarrow> PolicyHandler \<Rightarrow> http_request \<Rightarrow> time \<Rightarrow> state
   \<Rightarrow> response \<times> state" where
  "Update lib hookv h r now s =
     (case tailID (URL_Path r) ''/policies/'' of
        None \<Rightarrow> (http_Error 404 ''404 page not found'', s)
      | Some pid \<Rightarrow>
          (case DB_First pid s of
             (Inl ErrRecordNotFound, s1) \<Rightarrow> (http_Error 404 ''404 page not found'', s1)
           | (Inl (DriverError err), s1) \<Rightarrow> (http_Error 500 err, s1)
           | (Inr existing, s1) \<Rightarrow>
               (case Body r of
                  None \<Rightarrow> (http_Error 400 ''bad request'', s1)
                | Some inp \<Rightarrow>
                    (if Query_provider r \<noteq> [] \<and> \<not> valid_provider (Query_provider r)
                     then (http_Error 400 ''invalid provider'', s1)
                     else
                       (let inp = (if Query_provider r \<noteq> []
                                   then inp\<lparr>Provider := Query_provider r\<rparr> else inp);
                            inp = inp\<lparr>ID := ID existing\<rparr>;
                            inp = inp\<lparr>CreatedAt := CreatedAt existing\<rparr>
                        in case DB_Updates lib hookv existing inp now s1 of
                             (Some err, s2) \<Rightarrow> (http_Error 400 err, s2)
                           | (None, s2) \<Rightarrow>
                               (case DB_First (ID existing) s2 of
                                  (Inl err, s3) \<Rightarrow> (http_Error 500 (Error_text err), s3)
                                | (Inr existing', s3) \<Rightarrow>
                                    (http_JSON 200 existing',
                                     if Engine h then Invalidate (ID existing') s3 else s3)))))))"

section \<open>Concrete libraries for running the model\<close>

text \<open>
  To run the model on concrete requests the two libraries are instantiated on a fragment
  of their languages.

  The CEL fragment: the literals \<open>true\<close> and \<open>false\<close>, and dotted paths
  \<open>x.f.g\<close> from a declared variable.  On these texts \<open>cel_Parse\<close>, \<open>cel_Check\<close> and
  \<open>cel_Program\<close> do what cel-go does: an undeclared root is a check error, selecting a
  field of a string is a check error, a key missing from a map is a runtime error, and
  the result is whatever value the path reaches.  Every other text is reported as a
  syntax error, so only texts of the fragment, and texts cel-go rejects too, are used
  below.
\<close>

datatype cel_ast = BoolLit bool | Ident string | Select cel_ast string

definition ident_char :: "char \<Rightarrow> bool" where
  "ident_char c =
     ((CHR ''a'' \<le> c \<and> c \<le> CHR ''z'') \<or> (CHR ''A'' \<le> c \<and> c \<le> CHR ''Z'')
      \<or> (CHR ''0'' \<le> c \<and> c \<le> CHR ''9'') \<or> c = CHR ''_'')"

definition is_ident :: "string \<Rightarrow> bool" where
  "is_ident w =
     (case w of
        [] \<Rightarrow> False
      | c # cs \<Rightarrow> list_all ident_char w \<and> (c < CHR ''0'' \<or> CHR ''9'' < c))"

fun split_dots :: "string \<Rightarrow> string \<Rightarrow> string list" where
  "split_dots [] cur = [cur]"
| "split_dots (c # cs) cur =
     (if c = CHR ''.'' then cur # split_dots cs [] else split_dots cs (cur @ [c]))"

definition cel_Parse :: "string \<Rightarrow> string + cel_ast" where
  "cel_Parse expr =
     (if expr = ''true'' then Inr (BoolLit True)
      else if expr = ''false'' then Inr (BoolLit False)
      else (case split_dots expr [] of
              [] \<Rightarrow> Inl ''Syntax error''
            | w # ws \<Rightarrow>
                if list_all is_ident (w # ws) then Inr (foldl Select (Ident w) ws)
                else Inl ''Syntax error''))"

fun decl_name :: "decl \<Rightarrow> string" where
  "decl_name (NewConst n t) = n"
| "decl_name (NewVar n t) = n"

fun decl_type :: "decl \<Rightarrow> cel_type" where
  "decl_type (NewConst n t) = t"
| "decl_type (NewVar n t) = t"

fun cel_type_of :: "decl list \<Rightarrow> cel_ast \<Rightarrow> string + cel_type option" where
  "cel_type_of ds (BoolLit b) = Inr None"
| "cel_type_of ds (Ident x) =
     (case find (\<lambda>d. decl_name d = x) ds of
        None \<Rightarrow> Inl (''undeclared reference to '' @ quoted x)
      | Some d \<Rightarrow> Inr (Some (decl_type d)))"
| "cel_type_of ds (Select a f) =
     (case cel_type_of ds a of
        Inl err \<Rightarrow> Inl err
      | Inr (Some (NewMapType k v)) \<Rightarrow> Inr (Some v)
      | Inr (Some decls_Dyn) \<Rightarrow> Inr (Some decls_Dyn)
      | Inr other \<Rightarrow> Inl ''type does not support field selection'')"

definition cel_Check :: "decl list \<Rightarrow> cel_ast \<Rightarrow> string + cel_ast" where
  "cel_Check ds ast = (case cel_type_of ds ast of Inl err \<Rightarrow> Inl err | Inr t \<Rightarrow> Inr ast)"

text \<open>The bindings \<open>evaluatePolicy\<close> passes to \<open>Eval\<close>.\<close>

definition binding :: "Request \<Rightarrow> string \<Rightarrow> json option" where
  "binding req x =
     (if x = ''subject'' then Some (JObj (Subject req))
      else if x = ''resource'' then Some (JStr (ReqResource req))
      else if x = ''action'' then Some (JStr (Action req))
      else if x = ''metadata'' then Some (JObj (ReqMetadata req))
      else if x = ''protocol'' then Some (JStr (Protocol req))
      else if x = ''platform'' then Some (JStr (Platform req))
      else if x = ''cloud'' then Some (JStr (Cloud req))
      else None)"

fun cel_eval :: "cel_ast \<Rightarrow> Request \<Rightarrow> string + json" where
  "cel_eval (BoolLit b) req = Inr (JBool b)"
| "cel_eval (Ident x) req =
     (case binding req x of
        None \<Rightarrow> Inl (''no such attribute: '' @ x)
      | Some v \<Rightarrow> Inr v)"
| "cel_eval (Select a f) req =
     (case cel_eval a req of
        Inl err \<Rightarrow> Inl err
      | Inr (JObj kvs) \<Rightarrow>
          (case map_of (rev kvs) f of
             None \<Rightarrow> Inl (''no such key: '' @ f)
           | Some v \<Rightarrow> Inr v)
      | Inr other \<Rightarrow> Inl (''no such key: '' @ f))"

definition cel_Program :: "cel_ast \<Rightarrow> string + program" where
  "cel_Program ast =
     Inr (\<lambda>req. case cel_eval ast req of
                  Inl err \<Rightarrow> Inl err
                | Inr (JBool b) \<Rightarrow> Inr (CelBool b)
                | Inr other \<Rightarrow> Inr CelNonBool)"

definition cel_fragment :: "cel_ast cel" where
  "cel_fragment ds = Inr \<lparr>Parse = cel_Parse, Check = cel_Check ds, Program = cel_Program\<rparr>"

text \<open>
  The glob fragment: patterns of literal bytes, \<open>*\<close> (any run of bytes; the engine
  compiles without separators) and \<open>?\<close> (any one byte), matched against ASCII values as
  gobwas/glob matches them.  A pattern with an unterminated class, as \<open>[\<close>, is the
  library's error "unexpected end of input".  The other patterns that use classes,
  alternatives or escapes are outside the fragment and are reported as errors here,
  which the library does only for the malformed ones; none is used below.
\<close>

fun wildcard_match :: "string \<Rightarrow> string \<Rightarrow> bool" where
  "wildcard_match [] v = (v = [])"
| "wildcard_match (c # cs) [] = (c = CHR ''*'' \<and> wildcard_match cs [])"
| "wildcard_match (c # cs) (x # xs) =
     (if c = CHR ''*'' then wildcard_match cs (x # xs) \<or> wildcard_match (c # cs) xs
      else (c = CHR ''?'' \<or> c = x) \<and> wildcard_match cs xs)"

definition glob_special :: "char \<Rightarrow> bool" where
  "glob_special c = (c \<in> set [CHR ''['', CHR '']'', CHR ''{'', CHR ''}'', CHR 0x5C])"

definition glob_fragment :: glob where
  "glob_fragment pattern =
     (if list_ex glob_special pattern
      then (if CHR ''['' \<in> set pattern \<and> CHR '']'' \<notin> set pattern
            then Inl ''unexpected end of input''
            else Inl ''pattern outside the fragment'')
      else Inr (wildcard_match pattern))"

section \<open>Notions used to state the properties\<close>

text \<open>
  What happens to the predicate of a policy when \<open>evaluatePolicy\<close> runs it in a state:
  the four branches of lines 255-286.
\<close>

datatype predicate_outcome = CompileError string | RuntimeError string | NonBoolean | Value bool

definition predicate_outcome ::
  "'ast EvalEngine \<Rightarrow> Policy \<Rightarrow> Request \<Rightarrow> state \<Rightarrow> predicate_outcome" where
  "predicate_outcome e p req s =
     (case compileOrGet e (ID p) (Expr p) s of
        (Inl err, s') \<Rightarrow> CompileError err
      | (Inr prog, s') \<Rightarrow>
          (case prog req of
             Inl err \<Rightarrow> RuntimeError err
           | Inr CelNonBool \<Rightarrow> NonBoolean
           | Inr (CelBool b) \<Rightarrow> Value b))"

text \<open>The state \<open>compileOrGet\<close> leaves: the policy's program is cached if it compiled.\<close>

definition compiled :: "'ast EvalEngine \<Rightarrow> Policy \<Rightarrow> state \<Rightarrow> state" where
  "compiled e p s = snd (compileOrGet e (ID p) (Expr p) s)"

text \<open>The trace item of a predicate that failed (lines 257, 273, 281).\<close>

definition error_item :: "Policy \<Rightarrow> string \<Rightarrow> string \<Rightarrow> TraceItem" where
  "error_item p reason err =
     \<lparr>PolicyID = ID p, Result = None, TraceEffect = Effect p, Reason = reason, Error = err\<rparr>"

text \<open>The outcome the schedule holds for the next database operation.\<close>

definition next_fault :: "state \<Rightarrow> string option" where
  "next_fault s = (case faults (db s) of [] \<Rightarrow> None | f # fs \<Rightarrow> f)"

text \<open>A trace without error entries.\<close>

definition error_free :: "TraceItem list \<Rightarrow> bool" where
  "error_free tr = list_all (\<lambda>t. Error t = []) tr"

section \<open>Concrete policies, requests and stores\<close>

definition base_policy :: Policy where
  "base_policy =
     \<lparr>ID = uuid_Nil, Name = [], Effect = ''allow'', Provider = ''global'', Resource = ''*'',
      Actions = [], Condition = None, Expr = ''true'', Metadata = None, Enabled = True,
      Priority = 100, Version = 1, CreatedAt = 0, UpdatedAt = 0\<rparr>"

text \<open>End-to-end scenario 4 of the specification: two aws allows at the same priority.\<close>

definition policy_A :: Policy where
  "policy_A = base_policy\<lparr>ID := ''00000000-0000-0000-0000-00000000000a'', Name := ''A'',
      Provider := ''aws'', Resource := ''aws:s3:bucket/*''\<rparr>"

definition policy_B :: Policy where
  "policy_B = base_policy\<lparr>ID := ''00000000-0000-0000-0000-00000000000b'', Name := ''B'',
      Provider := ''aws'', Resource := ''aws:s3:bucket/b/*''\<rparr>"

definition request_s3 :: Request where
  "request_s3 = \<lparr>Subject = [], ReqResource = ''aws:s3:bucket/b/x'', Action = ''s3:GetObject'',
      ReqMetadata = [], Protocol = [], Platform = [], Cloud = ''aws''\<rparr>"

text \<open>Two global denies at priorities 10 and 20.\<close>

definition policy_G1 :: Policy where
  "policy_G1 = base_policy\<lparr>ID := ''00000000-0000-0000-0000-0000000000c1'', Name := ''G1'',
      Effect := ''deny'', Priority := 10\<rparr>"

definition policy_G2 :: Policy where
  "policy_G2 = base_policy\<lparr>ID := ''00000000-0000-0000-0000-0000000000c2'', Name := ''G2'',
      Effect := ''deny'', Priority := 20\<rparr>"

text \<open>
  An aws allow whose expression does not parse (scenario 6's text), at priority 1, and an
  aws deny at priority 2.
\<close>

definition policy_E :: Policy where
  "policy_E = base_policy\<lparr>ID := ''00000000-0000-0000-0000-0000000000e1'', Name := ''E'',
      Provider := ''aws'', Expr := ''subject.role =='', Priority := 1\<rparr>"

definition policy_D :: Policy where
  "policy_D = base_policy\<lparr>ID := ''00000000-0000-0000-0000-0000000000d1'', Name := ''D'',
      Provider := ''aws'', Effect := ''deny'', Priority := 2\<rparr>"

text \<open>A global policy whose resource is a malformed glob.\<close>

definition policy_M :: Policy where
  "policy_M = base_policy\<lparr>ID := ''00000000-0000-0000-0000-0000000000f1'', Name := ''M'',
      Resource := ''[''\<rparr>"

text \<open>An aws policy whose effect is neither allow nor deny.\<close>

definition policy_U :: Policy where
  "policy_U = base_policy\<lparr>ID := ''00000000-0000-0000-0000-0000000000f2'', Name := ''U'',
      Provider := ''aws'', Effect := ''audit''\<rparr>"

text \<open>A policy over the variable that only \<open>ValidateCEL\<close> declares.\<close>

definition policy_R :: Policy where
  "policy_R = base_policy\<lparr>Name := ''R'', Provider := ''aws'', Expr := ''request.subject.admin''\<rparr>"

definition stored_R :: "Policy \<Rightarrow> Policy" where
  "stored_R p = p\<lparr>ID := ''00000000-0000-0000-0000-0000000000f3'', CreatedAt := 7, UpdatedAt := 7\<rparr>"

text \<open>Scenario 5: neither cloud nor protocol.\<close>

definition request_none :: Request where
  "request_none = \<lparr>Subject = [], ReqResource = ''ssh:unix:host/h1'', Action = ''connect'',
      ReqMetadata = [], Protocol = [], Platform = [], Cloud = []\<rparr>"

definition fragment_engine :: "bool \<Rightarrow> cel_ast EvalEngine" where
  "fragment_engine fc =
     \<lparr>env = \<lparr>Parse = cel_Parse, Check = cel_Check engine_decls, Program = cel_Program\<rparr>,
      failClosed = fc\<rparr>"

definition store :: "Policy list \<Rightarrow> string option list \<Rightarrow> state" where
  "store ps fs = \<lparr>db = \<lparr>policies = ps, policy_audits = [], faults = fs\<rparr>, cache = Map.empty\<rparr>"

text \<open>\<open>PUT /policies/<A>\<close> with a body that gives no version, on a row at version 3.\<close>

definition put_A :: http_request where
  "put_A = \<lparr>URL_Path = ''/policies/00000000-0000-0000-0000-00000000000a'', Query_provider = ''aws'',
      Body = Some (base_policy\<lparr>Name := ''A2'', Resource := ''aws:s3:bucket/a/*'',
                               Version := 0, CreatedAt := 99\<rparr>)\<rparr>"

definition row_A3 :: Policy where
  "row_A3 = policy_A\<lparr>Version := 3, CreatedAt := 5, UpdatedAt := 5\<rparr>"

section \<open>Properties\<close>

subsection \<open>What one policy evaluation returns\<close>

lemma evaluatePolicy_state:
  "snd (evaluatePolicy e p req s) = compiled e p s"
  by (simp add: evaluatePolicy_def compiled_def Let_def
      split: prod.splits sum.splits cel_val.splits)

lemma evaluatePolicy_CompileError:
  assumes "predicate_outcome e p req s = CompileError err"
  shows "fst (evaluatePolicy e p req s) =
           (if failClosed e
            then (''deny'', Some (ID p),
                  ''Access denied by policy '' @ quoted (Name p) @ '': expression failed to compile'',
                  [error_item p ''policy expression failed to compile'' (''compile: '' @ err)], None)
            else (''allow'', None, ''expression failed to compile (fail-open)'',
                  [error_item p ''policy expression failed to compile'' (''compile: '' @ err)],
                  Some err))"
  using assms
  by (auto simp: evaluatePolicy_def predicate_outcome_def error_item_def Let_def
      split: prod.splits sum.splits cel_val.splits)

lemma evaluatePolicy_RuntimeError:
  assumes "predicate_outcome e p req s = RuntimeError err"
  shows "fst (evaluatePolicy e p req s) =
           (if failClosed e
            then (''deny'', Some (ID p),
                  ''Access denied by policy '' @ quoted (Name p) @ '': runtime error during evaluation'',
                  [error_item p ''policy evaluation runtime error'' (''runtime: '' @ err)], None)
            else (''allow'', None, ''runtime error (fail-open)'',
                  [error_item p ''policy evaluation runtime error'' (''runtime: '' @ err)],
                  Some err))"
  using assms
  by (auto simp: evaluatePolicy_def predicate_outcome_def error_item_def Let_def
      split: prod.splits sum.splits cel_val.splits)

lemma evaluatePolicy_NonBoolean:
  assumes "predicate_outcome e p req s = NonBoolean"
  shows "fst (evaluatePolicy e p req s) =
           (if failClosed e
            then (''deny'', Some (ID p),
                  ''Access denied by policy '' @ quoted (Name p) @ '': expression did not return true/false'',
                  [error_item p ''policy expression did not return boolean'' ''non-boolean result''], None)
            else (''allow'', None, ''non-boolean result (fail-open)'',
                  [error_item p ''policy expression did not return boolean'' ''non-boolean result''],
                  None))"
  using assms
  by (auto simp: evaluatePolicy_def predicate_outcome_def error_item_def Let_def
      split: prod.splits sum.splits cel_val.splits)

lemma evaluatePolicy_Value:
  assumes "predicate_outcome e p req s = Value b"
  shows "fst (evaluatePolicy e p req s) =
           (if b then
              (if Effect p = ''deny''
               then (''deny'', Some (ID p),
                     policyMessageOrDefault p (''Access denied by policy '' @ quoted (Name p)),
                     [\<lparr>PolicyID = ID p, Result = Some True, TraceEffect = Effect p,
                       Reason = policyMessageOrDefault p (''Access denied by policy '' @ quoted (Name p)),
                       Error = []\<rparr>], None)
               else if Effect p = ''allow''
               then (''allow'', Some (ID p),
                     policyMessageOrDefault p (''Access allowed by policy '' @ quoted (Name p)),
                     [\<lparr>PolicyID = ID p, Result = Some True, TraceEffect = Effect p,
                       Reason = policyMessageOrDefault p (''Access allowed by policy '' @ quoted (Name p)),
                       Error = []\<rparr>], None)
               else ([], None, [], [], None))
            else ([], None, [],
                  [\<lparr>PolicyID = ID p, Result = Some False, TraceEffect = Effect p,
                    Reason = policyNonMatchReason p, Error = []\<rparr>], None))"
  using assms
  by (auto simp: evaluatePolicy_def predicate_outcome_def Let_def
      split: prod.splits sum.splits cel_val.splits)

lemma evaluatePolicy_failClosed:
  assumes "failClosed e" and "evaluatePolicy e p req s = ((res, m, r, tr, err), s')"
  shows "err = None \<and> (res = ''deny'' \<or> error_free tr)"
  using assms
  by (auto simp: evaluatePolicy_def error_free_def Let_def
      split: prod.splits sum.splits cel_val.splits if_splits)

subsection \<open>The fail-closed engine\<close>

lemma globalLoop_failClosed_Exit:
  "failClosed e \<Longrightarrow> globalLoop gl e req ps tr0 s = (Returned (Exit (d, m, r, tr, err)), s')
   \<Longrightarrow> d = ''deny''"
proof (induction ps arbitrary: tr0 s)
  case Nil
  then show ?case by simp
next
  case (Cons p ps)
  then show ?case
    by (auto split: outcome.splits bool.splits prod.splits if_splits
        dest: evaluatePolicy_failClosed)
qed

lemma globalLoop_failClosed_Next:
  "failClosed e \<Longrightarrow> globalLoop gl e req ps tr0 s = (Returned (Next tr), s')
   \<Longrightarrow> error_free tr0 \<Longrightarrow> error_free tr"
proof (induction ps arbitrary: tr0 s)
  case Nil
  then show ?case by simp
next
  case (Cons p ps)
  then show ?case
    by (auto simp: error_free_def split: outcome.splits bool.splits prod.splits if_splits
        dest: evaluatePolicy_failClosed)
qed

lemma providerLoop_failClosed_Exit:
  "failClosed e \<Longrightarrow> providerLoop e req cs tr0 w s = (Exit (d, m, r, tr, err), s')
   \<Longrightarrow> d = ''deny''"
proof (induction cs arbitrary: tr0 w s)
  case Nil
  then show ?case by simp
next
  case (Cons c cs)
  then show ?case
    by (auto split: prod.splits if_splits dest: evaluatePolicy_failClosed)
qed

lemma providerLoop_failClosed_Next:
  "failClosed e \<Longrightarrow> providerLoop e req cs tr0 w s = (Next (tr, w'), s')
   \<Longrightarrow> error_free tr0 \<Longrightarrow> error_free tr"
proof (induction cs arbitrary: tr0 w s)
  case Nil
  then show ?case by simp
next
  case (Cons c cs)
  then show ?case
    by (auto simp: error_free_def split: prod.splits if_splits dest: evaluatePolicy_failClosed)
qed

lemma providerLayer_failClosed:
  assumes "failClosed e" and "providerLayer gl e req pr tr0 s = (Returned (d, m, r, tr, err), s')"
    and "error_free tr0"
  shows "d = ''deny'' \<or> (err = None \<and> error_free tr)"
  using assms
  by (auto simp: providerLayer_def
      split: prod.splits sum.splits outcome.splits step.splits option.splits
      dest: providerLoop_failClosed_Exit providerLoop_failClosed_Next)

lemma evaluate_failClosed:
  assumes fc: "failClosed e" and ev: "evaluate gl e req s = (Returned (d, m, r, tr, err), s')"
  shows "d = ''deny'' \<or> (err = None \<and> error_free tr)"
proof (cases "loadPolicies ''global'' (Action req) s")
  case (Pair l s1)
  show ?thesis
  proof (cases l)
    case (Inl e1)
    with Pair fc ev show ?thesis by (simp add: evaluate_def)
  next
    case (Inr gps)
    obtain o2 s2 where gl: "globalLoop gl e req gps [] s1 = (o2, s2)"
      by (cases "globalLoop gl e req gps [] s1")
    show ?thesis
    proof (cases o2)
      case (Panic msg)
      with Pair Inr gl ev show ?thesis by (simp add: evaluate_def)
    next
      case (Returned st)
      show ?thesis
      proof (cases st)
        case (Exit r0)
        with Pair Inr gl Returned ev have "r0 = (d, m, r, tr, err)"
          by (simp add: evaluate_def)
        with gl Returned Exit fc show ?thesis
          by (auto dest: globalLoop_failClosed_Exit)
      next
        case (Next tr1)
        with gl Returned fc have clean: "error_free tr1"
          by (auto simp: error_free_def dest: globalLoop_failClosed_Next)
        from Pair Inr gl Returned Next ev
        have "d = ''deny'' \<or>
              (\<exists>pr. providerLayer gl e req pr tr1 s2 = (Returned (d, m, r, tr, err), s'))"
          by (auto simp: evaluate_def Let_def split: if_splits)
        with fc clean show ?thesis
          by (auto dest: providerLayer_failClosed)
      qed
    qed
  qed
qed

lemma loadPolicies_fault:
  "next_fault s = Some msg \<Longrightarrow> fst (loadPolicies pr a s) = Inl msg"
  by (auto simp: loadPolicies_def db_op_def next_fault_def split: list.splits)

lemma predicate_error_failClosed:
  assumes "failClosed e" and "\<forall>b. predicate_outcome e p req s \<noteq> Value b"
  shows "\<exists>r tr. fst (evaluatePolicy e p req s) = (''deny'', Some (ID p), r, tr, None)
                \<and> \<not> error_free tr"
proof (cases "predicate_outcome e p req s")
  case (CompileError x)
  from evaluatePolicy_CompileError [OF this] assms(1) show ?thesis
    by (simp add: error_free_def error_item_def)
next
  case (RuntimeError x)
  from evaluatePolicy_RuntimeError [OF this] assms(1) show ?thesis
    by (simp add: error_free_def error_item_def)
next
  case NonBoolean
  from evaluatePolicy_NonBoolean [OF this] assms(1) show ?thesis
    by (simp add: error_free_def error_item_def)
next
  case (Value b)
  with assms(2) show ?thesis by blast
qed

text \<open>
  C3.  With \<open>failClosed\<close>, no internal error yields \<open>allow\<close>: a store error in the global
  layer, or in the provider layer, returns \<open>deny\<close> with the error; a predicate that fails
  to compile, fails at run time or returns a non-boolean makes \<open>evaluatePolicy\<close> return
  \<open>deny\<close> and record the error in the trace; and whenever \<open>evaluate\<close> returns with an
  error or with a trace entry that carries one, its decision is \<open>deny\<close>.
\<close>

theorem fail_closed_error_is_deny:
  assumes "failClosed e"
  shows "(next_fault s = Some msg \<longrightarrow>
            fst (evaluate gl e req s)
              = Returned (''deny'', None, ''database error: '' @ msg, [], Some msg))
       \<and> (next_fault s = Some msg \<longrightarrow>
            fst (providerLayer gl e req pr tr0 s)
              = Returned (''deny'', None, ''database error: '' @ msg, tr0, Some msg))
       \<and> ((\<forall>b. predicate_outcome e p req s \<noteq> Value b) \<longrightarrow>
            (\<exists>r1 tr1. fst (evaluatePolicy e p req s) = (''deny'', Some (ID p), r1, tr1, None)
                      \<and> \<not> error_free tr1))
       \<and> (fst (evaluate gl e req s) = Returned (d, m, r, tr, err) \<longrightarrow>
            err \<noteq> None \<or> \<not> error_free tr \<longrightarrow> d = ''deny'')"
proof (intro conjI impI)
  assume f: "next_fault s = Some msg"
  from loadPolicies_fault [OF f, of "''global''" "Action req"] assms
  show "fst (evaluate gl e req s)
          = Returned (''deny'', None, ''database error: '' @ msg, [], Some msg)"
    by (cases "loadPolicies ''global'' (Action req) s") (simp add: evaluate_def)
next
  assume f: "next_fault s = Some msg"
  from loadPolicies_fault [OF f, of pr "Action req"] assms
  show "fst (providerLayer gl e req pr tr0 s)
          = Returned (''deny'', None, ''database error: '' @ msg, tr0, Some msg)"
    by (cases "loadPolicies pr (Action req) s") (simp add: providerLayer_def)
next
  assume "\<forall>b. predicate_outcome e p req s \<noteq> Value b"
  with assms show "\<exists>r1 tr1. fst (evaluatePolicy e p req s) = (''deny'', Some (ID p), r1, tr1, None)
                      \<and> \<not> error_free tr1"
    by (rule predicate_error_failClosed)
next
  assume ev: "fst (evaluate gl e req s) = Returned (d, m, r, tr, err)"
    and bad: "err \<noteq> None \<or> \<not> error_free tr"
  from ev have "evaluate gl e req s = (Returned (d, m, r, tr, err), snd (evaluate gl e req s))"
    by (metis prod.collapse)
  from evaluate_failClosed [OF assms this] bad show "d = ''deny''"
    by auto
qed

theorem fail_closed_error_is_deny_witness:
  "failClosed (fragment_engine True)
   \<and> next_fault (store [policy_A] [Some ''connection refused'']) = Some ''connection refused''
   \<and> fst (evaluate glob_fragment (fragment_engine True) request_s3
            (store [policy_A] [Some ''connection refused'']))
       = Returned (''deny'', None, ''database error: connection refused'', [],
                   Some ''connection refused'')
   \<and> predicate_outcome (fragment_engine True) policy_E request_s3 (store [policy_E, policy_A] [])
       = CompileError ''Syntax error''
   \<and> fst (fst (evaluatePolicy (fragment_engine True) policy_E request_s3
                 (store [policy_E, policy_A] []))) = ''deny''
   \<and> fst (evaluate glob_fragment (fragment_engine True) request_s3 (store [policy_E, policy_A] []))
       = Returned (''deny'', Some (ID policy_E),
           ''Access denied by policy '' @ quoted ''E'' @ '': expression failed to compile'',
           [error_item policy_E ''policy expression failed to compile'' ''compile: Syntax error''],
           None)"
proof -
  let ?e = "fragment_engine True"
  let ?s = "store [policy_E, policy_A] []"
  let ?sf = "store [policy_A] [Some ''connection refused'']"
  let ?tr = "[error_item policy_E ''policy expression failed to compile'' ''compile: Syntax error'']"
  let ?r = "''Access denied by policy '' @ quoted ''E'' @ '': expression failed to compile''"
  have fc: "failClosed ?e"
    by (simp add: fragment_engine_def)
  have nf: "next_fault ?sf = Some ''connection refused''"
    by (simp add: next_fault_def store_def)
  have po: "predicate_outcome ?e policy_E request_s3 ?s = CompileError ''Syntax error''"
    by code_simp
  have ev: "fst (evaluate glob_fragment ?e request_s3 ?s)
            = Returned (''deny'', Some (ID policy_E), ?r, ?tr, None)"
    by code_simp
  have bad: "\<not> error_free ?tr"
    by (simp add: error_free_def error_item_def)
  have np: "\<forall>b. predicate_outcome ?e policy_E request_s3 ?s \<noteq> Value b"
    by (simp add: po)
  have a: "fst (evaluate glob_fragment ?e request_s3 ?sf)
       = Returned (''deny'', None, ''database error: connection refused'', [],
                   Some ''connection refused'')"
    using fail_closed_error_is_deny [OF fc, where s = ?sf and msg = "''connection refused''"
        and gl = glob_fragment and req = request_s3, THEN conjunct1, THEN mp, OF nf]
    by simp
  have "\<exists>r1 tr1. fst (evaluatePolicy ?e policy_E request_s3 ?s)
                    = (''deny'', Some (ID policy_E), r1, tr1, None) \<and> \<not> error_free tr1"
    by (rule fail_closed_error_is_deny [OF fc, where s = ?s and p = policy_E and req = request_s3,
          THEN conjunct2, THEN conjunct2, THEN conjunct1, THEN mp, OF np])
  then have b: "fst (fst (evaluatePolicy ?e policy_E request_s3 ?s)) = ''deny''"
    by (elim exE conjE) (simp only: fst_conv)
  show ?thesis
    by (intro conjI) (fact fc nf a po b ev)+
qed

subsection \<open>Provider determination\<close>

lemma loadPolicies_scope:
  "loadPolicies pr a s = (Inr ps, s') \<Longrightarrow> list_all (\<lambda>p. Enabled p \<and> Provider p = pr) ps"
  by (auto simp: loadPolicies_def list_all_iff split: prod.splits option.splits)

text \<open>
  C7.  When the global layer has run to its end without a decision (step 2 of the
  procedure is reached), the provider is \<open>req.cloud\<close> if that is neither empty nor
  \<open>none\<close>, and \<open>req.protocol\<close> otherwise; with an empty provider \<open>evaluate\<close> returns \<open>deny\<close>,
  no matched policy and the reason "Access denied: no provider specified"; otherwise it
  runs the provider layer, which loads its candidates for exactly that provider.
\<close>

theorem provider_determination:
  assumes "loadPolicies ''global'' (Action req) s = (Inr gps, s1)"
    and "globalLoop gl e req gps [] s1 = (Returned (Next tr), s2)"
  shows "evaluate gl e req s =
           (let provider = (if Cloud req \<noteq> [] \<and> Cloud req \<noteq> ''none'' then Cloud req
                            else Protocol req)
            in if provider = []
               then (Returned (''deny'', None, ''Access denied: no provider specified'', tr, None), s2)
               else providerLayer gl e req provider tr s2)"
  using assms by (simp add: evaluate_def Let_def)

theorem provider_determination_witness:
  "fst (evaluate glob_fragment (fragment_engine True) request_none (store [policy_A] []))
     = Returned (''deny'', None, ''Access denied: no provider specified'', [], None)"
proof -
  let ?s = "store [policy_A] []"
  have l: "loadPolicies ''global'' (Action request_none) ?s = (Inr [], ?s)"
    by (simp add: loadPolicies_def db_op_def store_def policy_A_def base_policy_def)
  have g: "globalLoop glob_fragment (fragment_engine True) request_none [] [] ?s
             = (Returned (Next []), ?s)"
    by simp
  from provider_determination [OF l g] show ?thesis
    by (simp add: request_none_def)
qed

subsection \<open>The audit record\<close>

lemma db_op_db:
  "db_op s = (f, s') \<Longrightarrow>
     policy_audits (db s') = policy_audits (db s) \<and> policies (db s') = policies (db s)
     \<and> cache s' = cache s"
  by (auto simp: db_op_def split: list.splits)

lemma loadPolicies_audits:
  "loadPolicies pr a s = (r, s') \<Longrightarrow> policy_audits (db s') = policy_audits (db s)"
  by (auto simp: loadPolicies_def split: prod.splits option.splits dest: db_op_db)

lemma compileOrGet_db:
  "db (snd (compileOrGet e pid expr s)) = db s"
  by (simp add: compileOrGet_def split: option.splits sum.splits)

lemma evaluatePolicy_db:
  "db (snd (evaluatePolicy e p req s)) = db s"
  by (simp add: evaluatePolicy_state compiled_def compileOrGet_db)

lemma globalLoop_db:
  "db (snd (globalLoop gl e req ps tr s)) = db s"
proof (induction ps arbitrary: tr s)
  case Nil
  show ?case by simp
next
  case (Cons p ps)
  show ?case
  proof (cases "resourceMatch gl (Resource p) (ReqResource req)")
    case (Panic msg)
    then show ?thesis by simp
  next
    case (Returned b)
    show ?thesis
    proof (cases b)
      case False
      with Returned Cons show ?thesis by simp
    next
      case True
      obtain res m r t err s1 where ep: "evaluatePolicy e p req s = ((res, m, r, t, err), s1)"
        by (metis prod.exhaust)
      with evaluatePolicy_db [of e p req s] have d1: "db s1 = db s" by simp
      from Cons [of "tr @ t" s1] d1
      have "db (snd (globalLoop gl e req ps (tr @ t) s1)) = db s" by simp
      with Returned True ep d1 show ?thesis by simp
    qed
  qed
qed

lemma providerLoop_db:
  "db (snd (providerLoop e req cs tr w s)) = db s"
proof (induction cs arbitrary: tr w s)
  case Nil
  show ?case by simp
next
  case (Cons c cs)
  obtain res m r t err s1 where ep: "evaluatePolicy e (cand_p c) req s = ((res, m, r, t, err), s1)"
    by (metis prod.exhaust)
  with evaluatePolicy_db [of e "cand_p c" req s] have d1: "db s1 = db s" by simp
  from Cons [of "tr @ t" _ s1] d1
  have "\<And>w'. db (snd (providerLoop e req cs (tr @ t) w' s1)) = db s" by simp
  with ep d1 show ?case by simp
qed

lemma providerLayer_audits:
  "policy_audits (db (snd (providerLayer gl e req pr tr s))) = policy_audits (db s)"
proof (cases "loadPolicies pr (Action req) s")
  case (Pair l s1)
  note la = loadPolicies_audits [OF Pair]
  show ?thesis
  proof (cases l)
    case (Inl e1)
    with Pair la show ?thesis by (simp add: providerLayer_def)
  next
    case (Inr pps)
    show ?thesis
    proof (cases "collectCands gl req pps []")
      case (Panic msg)
      with Pair Inr la show ?thesis by (simp add: providerLayer_def)
    next
      case (Returned cands)
      obtain o2 s2 where pl: "providerLoop e req (sort_Slice cand_less cands) tr None s1 = (o2, s2)"
        by (cases "providerLoop e req (sort_Slice cand_less cands) tr None s1")
      with providerLoop_db [of e req "sort_Slice cand_less cands" tr None s1]
      have d2: "db s2 = db s1" by simp
      from Pair Inr Returned pl have "snd (providerLayer gl e req pr tr s) = s2"
        by (simp add: providerLayer_def split: step.splits option.splits prod.splits)
      with la d2 show ?thesis by simp
    qed
  qed
qed

lemma evaluate_audits:
  "policy_audits (db (snd (evaluate gl e req s))) = policy_audits (db s)"
proof (cases "loadPolicies ''global'' (Action req) s")
  case (Pair l s1)
  note la = loadPolicies_audits [OF Pair]
  show ?thesis
  proof (cases l)
    case (Inl e1)
    with Pair la show ?thesis by (simp add: evaluate_def)
  next
    case (Inr gps)
    obtain o2 s2 where gl: "globalLoop gl e req gps [] s1 = (o2, s2)"
      by (cases "globalLoop gl e req gps [] s1")
    with globalLoop_db [of gl e req gps "[]" s1] have d2: "db s2 = db s1" by simp
    have "snd (evaluate gl e req s) = s2
          \<or> (\<exists>pr tr. snd (evaluate gl e req s) = snd (providerLayer gl e req pr tr s2))"
      using Pair Inr gl
      by (cases o2) (auto simp: evaluate_def Let_def split: step.splits)
    with la d2 show ?thesis
      by (auto simp: providerLayer_audits)
  qed
qed

text \<open>
  C9.  Whenever \<open>evaluate\<close> returns an outcome (a decision of a policy, a default deny or
  an error outcome), \<open>EvaluateAndAudit\<close> returns that same outcome and has issued one
  insert into the audit table: if the insert succeeds the table has grown by exactly the
  record of the request, decision, matched identity and trace; if it fails the table is
  unchanged and the outcome is returned all the same.
\<close>

theorem audit_after_every_outcome:
  assumes "evaluate gl e req s = (Returned (d, m, r, tr, err), s1)"
  shows "fst (EvaluateAndAudit gl e req s) = Returned (d, m, r, tr, err)
       \<and> policy_audits (db (snd (EvaluateAndAudit gl e req s)))
           = policy_audits (db s)
             @ (case next_fault s1 of
                  None \<Rightarrow> [\<lparr>AuditRequest = req, Decision = d, MatchedID = m, Trace = tr\<rparr>]
                | Some failure \<Rightarrow> [])
       \<and> faults (db (snd (EvaluateAndAudit gl e req s))) = tl (faults (db s1))
       \<and> cache (snd (EvaluateAndAudit gl e req s)) = cache s1"
proof -
  from evaluate_audits [of gl e req s] assms
  have a: "policy_audits (db s1) = policy_audits (db s)" by simp
  show ?thesis
  proof (cases "faults (db s1)")
    case Nil
    with assms a show ?thesis
      by (simp add: EvaluateAndAudit_def persistAudit_def db_op_def next_fault_def)
  next
    case (Cons f fs)
    with assms a show ?thesis
      by (cases f) (simp_all add: EvaluateAndAudit_def persistAudit_def db_op_def next_fault_def)
  qed
qed

theorem audit_after_every_outcome_witness:
  "policy_audits (db (snd (EvaluateAndAudit glob_fragment (fragment_engine True) request_none
                             (store [policy_A] []))))
     = [\<lparr>AuditRequest = request_none, Decision = ''deny'', MatchedID = None, Trace = []\<rparr>]
   \<and> fst (EvaluateAndAudit glob_fragment (fragment_engine True) request_none
            (store [policy_A] [None, Some ''disk full'']))
     = Returned (''deny'', None, ''Access denied: no provider specified'', [], None)
   \<and> policy_audits (db (snd (EvaluateAndAudit glob_fragment (fragment_engine True) request_none
                             (store [policy_A] [None, Some ''disk full'']))))
     = []"
proof -
  let ?e = "fragment_engine True"
  let ?out = "Returned (''deny'', None, ''Access denied: no provider specified'', [], None)"
  have ne: "Provider policy_A = ''aws''"
    by (simp add: policy_A_def base_policy_def)
  have e1: "evaluate glob_fragment ?e request_none (store [policy_A] [])
              = (?out, store [policy_A] [])"
    by (simp add: evaluate_def loadPolicies_def db_op_def store_def request_none_def ne Let_def)
  have e2: "evaluate glob_fragment ?e request_none (store [policy_A] [None, Some ''disk full''])
              = (?out, store [policy_A] [Some ''disk full''])"
    by (simp add: evaluate_def loadPolicies_def db_op_def store_def request_none_def ne Let_def)
  from audit_after_every_outcome [OF e1] audit_after_every_outcome [OF e2]
  show ?thesis
    by (simp add: next_fault_def store_def)
qed

subsection \<open>One step of the two loops\<close>

lemma evaluatePolicy_pair:
  "evaluatePolicy e p req s = (fst (evaluatePolicy e p req s), compiled e p s)"
  using evaluatePolicy_state [of e p req s] by (cases "evaluatePolicy e p req s") simp

lemma globalLoop_step:
  assumes "resourceMatch gl (Resource p) (ReqResource req) = Returned True"
    and "fst (evaluatePolicy e p req s) = (res, m, r, t, err)"
  shows "globalLoop gl e req (p # ps) tr s =
           (if err \<noteq> None then (Returned (Exit (res, m, r, tr @ t, err)), compiled e p s)
            else if res = ''deny''
            then (Returned (Exit (''deny'', m, r, tr @ t, None)), compiled e p s)
            else globalLoop gl e req ps (tr @ t) (compiled e p s))"
proof -
  from assms(2) have "evaluatePolicy e p req s = ((res, m, r, t, err), compiled e p s)"
    using evaluatePolicy_pair [of e p req s] by simp
  with assms(1) show ?thesis by simp
qed

lemma providerLoop_step:
  assumes "fst (evaluatePolicy e (cand_p c) req s) = (res, m, r, t, err)"
  shows "providerLoop e req (c # cs) tr w s =
           (if err \<noteq> None then (Exit (res, m, r, tr @ t, err), compiled e (cand_p c) s)
            else if res = ''deny'' then (Exit (''deny'', m, r, tr @ t, None), compiled e (cand_p c) s)
            else providerLoop e req cs (tr @ t)
                   (if res = ''allow'' then Some (cand_p c) else w) (compiled e (cand_p c) s))"
proof -
  from assms have "evaluatePolicy e (cand_p c) req s = ((res, m, r, t, err), compiled e (cand_p c) s)"
    using evaluatePolicy_pair [of e "cand_p c" req s] by simp
  then show ?thesis by simp
qed

subsection \<open>A policy whose effect is neither allow nor deny\<close>

text \<open>
  C10.  Let the effect of a candidate policy be neither \<open>allow\<close> nor \<open>deny\<close> and let its
  predicate evaluate to a boolean.  If the boolean is true, \<open>evaluatePolicy\<close> returns the
  empty result with no trace item, and both loops go on to the remaining candidates with
  the trace and the allow winner they had: the policy leaves nothing but its compiled
  program in the cache.  If it is false, the one trace item with the non-match reason is
  returned (and appended by the loops).
\<close>

theorem unknown_effect_is_silent:
  assumes "Effect p \<noteq> ''allow''" and "Effect p \<noteq> ''deny''"
    and "predicate_outcome e p req s = Value b"
  shows "evaluatePolicy e p req s =
           (([], None, [],
             (if b then []
              else [\<lparr>PolicyID = ID p, Result = Some False, TraceEffect = Effect p,
                      Reason = policyNonMatchReason p, Error = []\<rparr>]),
             None), compiled e p s)
       \<and> (b \<and> cand_p c = p \<longrightarrow>
            providerLoop e req (c # cs) tr w s = providerLoop e req cs tr w (compiled e p s))
       \<and> (b \<and> resourceMatch gl (Resource p) (ReqResource req) = Returned True \<longrightarrow>
            globalLoop gl e req (p # ps) tr s = globalLoop gl e req ps tr (compiled e p s))
       \<and> (\<not> b \<and> cand_p c = p \<longrightarrow>
            providerLoop e req (c # cs) tr w s =
              providerLoop e req cs
                (tr @ [\<lparr>PolicyID = ID p, Result = Some False, TraceEffect = Effect p,
                         Reason = policyNonMatchReason p, Error = []\<rparr>]) w (compiled e p s))"
proof -
  let ?item = "\<lparr>PolicyID = ID p, Result = Some False, TraceEffect = Effect p,
                  Reason = policyNonMatchReason p, Error = []\<rparr>"
  from evaluatePolicy_Value [OF assms(3)] assms(1,2)
  have f: "fst (evaluatePolicy e p req s) = ([], None, [], (if b then [] else [?item]), None)"
    by simp
  have 1: "evaluatePolicy e p req s = (([], None, [], (if b then [] else [?item]), None), compiled e p s)"
    using evaluatePolicy_pair [of e p req s] f by simp
  have 2: "providerLoop e req (c # cs) tr w s = providerLoop e req cs tr w (compiled e p s)"
    if "b \<and> cand_p c = p"
    using that providerLoop_step [of e c req s "[]" None "[]" "[]" None cs tr w] f by simp
  have 3: "globalLoop gl e req (p # ps) tr s = globalLoop gl e req ps tr (compiled e p s)"
    if "b \<and> resourceMatch gl (Resource p) (ReqResource req) = Returned True"
    using that globalLoop_step [of gl p req e s "[]" None "[]" "[]" None ps tr] f by simp
  have 4: "providerLoop e req (c # cs) tr w s =
              providerLoop e req cs (tr @ [?item]) w (compiled e p s)"
    if "\<not> b \<and> cand_p c = p"
    using that providerLoop_step [of e c req s "[]" None "[]" "[?item]" None cs tr w] f by simp
  from 1 2 3 4 show ?thesis by blast
qed

theorem unknown_effect_is_silent_witness:
  "Effect policy_U \<noteq> ''allow'' \<and> Effect policy_U \<noteq> ''deny''
   \<and> predicate_outcome (fragment_engine True) policy_U request_s3 (store [policy_U, policy_A] [])
       = Value True
   \<and> fst (evaluatePolicy (fragment_engine True) policy_U request_s3 (store [policy_U, policy_A] []))
       = ([], None, [], [], None)
   \<and> fst (evaluate glob_fragment (fragment_engine True) request_s3 (store [policy_U, policy_A] []))
       = Returned (''allow'', Some (ID policy_A), ''Access allowed by policy '' @ quoted ''A'',
           [\<lparr>PolicyID = ID policy_A, Result = Some True, TraceEffect = ''allow'',
             Reason = ''Access allowed by policy '' @ quoted ''A'', Error = []\<rparr>], None)"
proof -
  let ?e = "fragment_engine True"
  let ?s = "store [policy_U, policy_A] []"
  have a: "Effect policy_U \<noteq> ''allow''" and d: "Effect policy_U \<noteq> ''deny''"
    by (simp_all add: policy_U_def base_policy_def)
  have po: "predicate_outcome ?e policy_U request_s3 ?s = Value True"
    by code_simp
  have ev: "fst (evaluate glob_fragment ?e request_s3 ?s)
       = Returned (''allow'', Some (ID policy_A), ''Access allowed by policy '' @ quoted ''A'',
           [\<lparr>PolicyID = ID policy_A, Result = Some True, TraceEffect = ''allow'',
             Reason = ''Access allowed by policy '' @ quoted ''A'', Error = []\<rparr>], None)"
    by code_simp
  have ep: "fst (evaluatePolicy ?e policy_U request_s3 ?s) = ([], None, [], [], None)"
    using unknown_effect_is_silent [OF a d po, THEN conjunct1] by simp
  show ?thesis
    by (intro conjI) (fact a d po ep ev)+
qed

subsection \<open>The fail-open engine\<close>

text \<open>
  C4, as the code has it.  With \<open>failClosed = false\<close>, a predicate that fails to compile
  or fails at run time ends the decision at that policy, in either layer: the loop
  appends the policy's error entry to the trace and returns \<open>allow\<close> with no matched
  policy, the fail-open reason and the error; the remaining candidates are not
  evaluated.  A non-boolean result appends the policy's error entry and the loop goes on
  to the remaining candidates.
\<close>

theorem fail_open_error_handling:
  assumes "\<not> failClosed e"
  shows "(predicate_outcome e p req s = CompileError x \<and> cand_p c = p \<longrightarrow>
            providerLoop e req (c # cs) tr w s =
              (Exit (''allow'', None, ''expression failed to compile (fail-open)'',
                     tr @ [error_item p ''policy expression failed to compile'' (''compile: '' @ x)],
                     Some x), compiled e p s))
       \<and> (predicate_outcome e p req s = CompileError x
            \<and> resourceMatch gl (Resource p) (ReqResource req) = Returned True \<longrightarrow>
            globalLoop gl e req (p # ps) tr s =
              (Returned (Exit (''allow'', None, ''expression failed to compile (fail-open)'',
                     tr @ [error_item p ''policy expression failed to compile'' (''compile: '' @ x)],
                     Some x)), compiled e p s))
       \<and> (predicate_outcome e p req s = RuntimeError x \<and> cand_p c = p \<longrightarrow>
            providerLoop e req (c # cs) tr w s =
              (Exit (''allow'', None, ''runtime error (fail-open)'',
                     tr @ [error_item p ''policy evaluation runtime error'' (''runtime: '' @ x)],
                     Some x), compiled e p s))
       \<and> (predicate_outcome e p req s = RuntimeError x
            \<and> resourceMatch gl (Resource p) (ReqResource req) = Returned True \<longrightarrow>
            globalLoop gl e req (p # ps) tr s =
              (Returned (Exit (''allow'', None, ''runtime error (fail-open)'',
                     tr @ [error_item p ''policy evaluation runtime error'' (''runtime: '' @ x)],
                     Some x)), compiled e p s))
       \<and> (predicate_outcome e p req s = NonBoolean
            \<and> resourceMatch gl (Resource p) (ReqResource req) = Returned True \<longrightarrow>
            globalLoop gl e req (p # ps) tr s =
              globalLoop gl e req ps
                (tr @ [error_item p ''policy expression did not return boolean'' ''non-boolean result''])
                (compiled e p s))
       \<and> (predicate_outcome e p req s = NonBoolean \<and> cand_p c = p \<longrightarrow>
            (\<exists>w'. providerLoop e req (c # cs) tr w s =
              providerLoop e req cs
                (tr @ [error_item p ''policy expression did not return boolean'' ''non-boolean result''])
                w' (compiled e p s)))"
proof (intro conjI impI; elim conjE)
  assume po: "predicate_outcome e p req s = CompileError x" and c: "cand_p c = p"
  from evaluatePolicy_CompileError [OF po] assms c
  have "fst (evaluatePolicy e (cand_p c) req s) =
          (''allow'', None, ''expression failed to compile (fail-open)'',
           [error_item p ''policy expression failed to compile'' (''compile: '' @ x)], Some x)"
    by simp
  from providerLoop_step [OF this] c
  show "providerLoop e req (c # cs) tr w s =
              (Exit (''allow'', None, ''expression failed to compile (fail-open)'',
                     tr @ [error_item p ''policy expression failed to compile'' (''compile: '' @ x)],
                     Some x), compiled e p s)"
    by simp
next
  assume po: "predicate_outcome e p req s = CompileError x"
    and rm: "resourceMatch gl (Resource p) (ReqResource req) = Returned True"
  from evaluatePolicy_CompileError [OF po] assms
  have "fst (evaluatePolicy e p req s) =
          (''allow'', None, ''expression failed to compile (fail-open)'',
           [error_item p ''policy expression failed to compile'' (''compile: '' @ x)], Some x)"
    by simp
  from globalLoop_step [OF rm this]
  show "globalLoop gl e req (p # ps) tr s =
              (Returned (Exit (''allow'', None, ''expression failed to compile (fail-open)'',
                     tr @ [error_item p ''policy expression failed to compile'' (''compile: '' @ x)],
                     Some x)), compiled e p s)"
    by simp
next
  assume po: "predicate_outcome e p req s = RuntimeError x" and c: "cand_p c = p"
  from evaluatePolicy_RuntimeError [OF po] assms c
  have "fst (evaluatePolicy e (cand_p c) req s) =
          (''allow'', None, ''runtime error (fail-open)'',
           [error_item p ''policy evaluation runtime error'' (''runtime: '' @ x)], Some x)"
    by simp
  from providerLoop_step [OF this] c
  show "providerLoop e req (c # cs) tr w s =
              (Exit (''allow'', None, ''runtime error (fail-open)'',
                     tr @ [error_item p ''policy evaluation runtime error'' (''runtime: '' @ x)],
                     Some x), compiled e p s)"
    by simp
next
  assume po: "predicate_outcome e p req s = RuntimeError x"
    and rm: "resourceMatch gl (Resource p) (ReqResource req) = Returned True"
  from evaluatePolicy_RuntimeError [OF po] assms
  have "fst (evaluatePolicy e p req s) =
          (''allow'', None, ''runtime error (fail-open)'',
           [error_item p ''policy evaluation runtime error'' (''runtime: '' @ x)], Some x)"
    by simp
  from globalLoop_step [OF rm this]
  show "globalLoop gl e req (p # ps) tr s =
              (Returned (Exit (''allow'', None, ''runtime error (fail-open)'',
                     tr @ [error_item p ''policy evaluation runtime error'' (''runtime: '' @ x)],
                     Some x)), compiled e p s)"
    by simp
next
  assume po: "predicate_outcome e p req s = NonBoolean"
    and rm: "resourceMatch gl (Resource p) (ReqResource req) = Returned True"
  from evaluatePolicy_NonBoolean [OF po] assms
  have "fst (evaluatePolicy e p req s) =
          (''allow'', None, ''non-boolean result (fail-open)'',
           [error_item p ''policy expression did not return boolean'' ''non-boolean result''], None)"
    by simp
  from globalLoop_step [OF rm this]
  show "globalLoop gl e req (p # ps) tr s =
              globalLoop gl e req ps
                (tr @ [error_item p ''policy expression did not return boolean'' ''non-boolean result''])
                (compiled e p s)"
    by simp
next
  assume po: "predicate_outcome e p req s = NonBoolean" and c: "cand_p c = p"
  from evaluatePolicy_NonBoolean [OF po] assms c
  have "fst (evaluatePolicy e (cand_p c) req s) =
          (''allow'', None, ''non-boolean result (fail-open)'',
           [error_item p ''policy expression did not return boolean'' ''non-boolean result''], None)"
    by simp
  from providerLoop_step [OF this] c
  have "providerLoop e req (c # cs) tr w s =
              providerLoop e req cs
                (tr @ [error_item p ''policy expression did not return boolean'' ''non-boolean result''])
                (Some p) (compiled e p s)"
    by simp
  then show "\<exists>w'. providerLoop e req (c # cs) tr w s =
              providerLoop e req cs
                (tr @ [error_item p ''policy expression did not return boolean'' ''non-boolean result''])
                w' (compiled e p s)"
    by (rule exI)
qed

text \<open>
  The claim as stated fails: in the fail-open engine the candidate \<open>E\<close>, whose expression
  does not compile, ends the decision with \<open>allow\<close>, and the deny \<open>D\<close> that follows it in
  the order is never evaluated (alone, \<open>D\<close> denies the same request).
\<close>

theorem fail_open_skips_and_continues_counterexample:
  "fst (evaluate glob_fragment (fragment_engine False) request_s3 (store [policy_E, policy_D] []))
     = Returned (''allow'', None, ''expression failed to compile (fail-open)'',
         [error_item policy_E ''policy expression failed to compile'' ''compile: Syntax error''],
         Some ''Syntax error'')
   \<and> fst (evaluate glob_fragment (fragment_engine False) request_s3 (store [policy_D] []))
     = Returned (''deny'', Some (ID policy_D), ''Access denied by policy '' @ quoted ''D'',
         [\<lparr>PolicyID = ID policy_D, Result = Some True, TraceEffect = ''deny'',
           Reason = ''Access denied by policy '' @ quoted ''D'', Error = []\<rparr>], None)"
  by code_simp

theorem fail_open_error_handling_witness:
  "\<not> failClosed (fragment_engine False)
   \<and> predicate_outcome (fragment_engine False) policy_E request_s3 (store [policy_E, policy_D] [])
       = CompileError ''Syntax error''
   \<and> fst (providerLoop (fragment_engine False) request_s3
            [\<lparr>cand_p = policy_E, cand_sp = 1\<rparr>, \<lparr>cand_p = policy_D, cand_sp = 1\<rparr>] [] None
            (store [policy_E, policy_D] []))
       = Exit (''allow'', None, ''expression failed to compile (fail-open)'',
           [error_item policy_E ''policy expression failed to compile'' ''compile: Syntax error''],
           Some ''Syntax error'')"
proof -
  let ?e = "fragment_engine False"
  let ?s = "store [policy_E, policy_D] []"
  have fo: "\<not> failClosed ?e"
    by (simp add: fragment_engine_def)
  have po: "predicate_outcome ?e policy_E request_s3 ?s = CompileError ''Syntax error''"
    by code_simp
  have c: "cand_p \<lparr>cand_p = policy_E, cand_sp = 1\<rparr> = policy_E"
    by simp
  have pl: "fst (providerLoop ?e request_s3
            [\<lparr>cand_p = policy_E, cand_sp = 1\<rparr>, \<lparr>cand_p = policy_D, cand_sp = 1\<rparr>] [] None ?s)
       = Exit (''allow'', None, ''expression failed to compile (fail-open)'',
           [error_item policy_E ''policy expression failed to compile'' ''compile: Syntax error''],
           Some ''Syntax error'')"
    using fail_open_error_handling [OF fo,
        where cs = "[\<lparr>cand_p = policy_D, cand_sp = 1\<rparr>]" and tr = "[]" and w = None
          and p = policy_E and c = "\<lparr>cand_p = policy_E, cand_sp = 1\<rparr>" and req = request_s3
          and s = ?s and x = "''Syntax error''",
        THEN conjunct1, THEN mp, OF conjI, OF po c]
    by simp
  show ?thesis
    by (intro conjI) (fact fo po pl)+
qed

subsection \<open>Which allow wins\<close>

text \<open>
  C1 at scenario 4 of the specification.  The candidates are sorted with \<open>B\<close>, the more
  specific one, before \<open>A\<close>; both are evaluated and both allow; the matched policy that
  \<open>evaluate\<close> returns is \<open>A\<close>, the last allow of the order, since line 167 overwrites
  \<open>allowWinner\<close> at every allow.
\<close>

theorem scenario4_matches_last_allow:
  "map (\<lambda>c. ID (cand_p c))
     (sort_Slice cand_less
        [\<lparr>cand_p = policy_A, cand_sp = computeSpecificity (Resource policy_A)\<rparr>,
         \<lparr>cand_p = policy_B, cand_sp = computeSpecificity (Resource policy_B)\<rparr>])
     = [ID policy_B, ID policy_A]
   \<and> fst (evaluate glob_fragment (fragment_engine True) request_s3 (store [policy_A, policy_B] []))
     = Returned (''allow'', Some (ID policy_A), ''Access allowed by policy '' @ quoted ''A'',
         [\<lparr>PolicyID = ID policy_B, Result = Some True, TraceEffect = ''allow'',
           Reason = ''Access allowed by policy '' @ quoted ''B'', Error = []\<rparr>,
          \<lparr>PolicyID = ID policy_A, Result = Some True, TraceEffect = ''allow'',
           Reason = ''Access allowed by policy '' @ quoted ''A'', Error = []\<rparr>], None)"
  by code_simp

subsection \<open>The order of the global layer\<close>

text \<open>
  C2 in the global layer.  Two global denies, \<open>G1\<close> at priority 10 and \<open>G2\<close> at priority
  20, both match the request.  The global layer evaluates them in the order the store
  returned them: with \<open>G2\<close> first the matched policy is \<open>G2\<close>, with \<open>G1\<close> first it is \<open>G1\<close>.
\<close>

theorem global_layer_follows_store_order:
  "fst (evaluate glob_fragment (fragment_engine True) request_s3 (store [policy_G2, policy_G1] []))
     = Returned (''deny'', Some (ID policy_G2), ''Access denied by policy '' @ quoted ''G2'',
         [\<lparr>PolicyID = ID policy_G2, Result = Some True, TraceEffect = ''deny'',
           Reason = ''Access denied by policy '' @ quoted ''G2'', Error = []\<rparr>], None)
   \<and> fst (evaluate glob_fragment (fragment_engine True) request_s3 (store [policy_G1, policy_G2] []))
     = Returned (''deny'', Some (ID policy_G1), ''Access denied by policy '' @ quoted ''G1'',
         [\<lparr>PolicyID = ID policy_G1, Result = Some True, TraceEffect = ''deny'',
           Reason = ''Access denied by policy '' @ quoted ''G1'', Error = []\<rparr>], None)"
  by code_simp

subsection \<open>A malformed resource pattern\<close>

text \<open>
  C5.  If the first global candidate has a resource pattern that \<open>glob.Compile\<close> rejects
  (and that is neither empty nor \<open>*\<close>), \<open>resourceMatch\<close> panics in \<open>glob.MustCompile\<close>:
  \<open>EvaluateAndAudit\<close> returns no decision and writes no audit record.
\<close>

theorem malformed_glob_panics:
  assumes "gl (Resource p) = Inl msg" and "Resource p \<noteq> []" and "Resource p \<noteq> ''*''"
    and "loadPolicies ''global'' (Action req) s = (Inr (p # ps), s1)"
  shows "fst (EvaluateAndAudit gl e req s) = Panic msg
       \<and> policy_audits (db (snd (EvaluateAndAudit gl e req s))) = policy_audits (db s)"
proof -
  from assms(1-3) have "resourceMatch gl (Resource p) (ReqResource req) = Panic msg"
    by (simp add: resourceMatch_def)
  then have "globalLoop gl e req (p # ps) [] s1 = (Panic msg, s1)"
    by simp
  with assms(4) have ev: "evaluate gl e req s = (Panic msg, s1)"
    by (simp add: evaluate_def)
  then have "EvaluateAndAudit gl e req s = (Panic msg, s1)"
    by (simp add: EvaluateAndAudit_def)
  with evaluate_audits [of gl e req s] ev show ?thesis
    by simp
qed

theorem malformed_glob_panics_witness:
  "glob_fragment (Resource policy_M) = Inl ''unexpected end of input''
   \<and> fst (EvaluateAndAudit glob_fragment (fragment_engine True) request_s3
            (store [policy_M, policy_A] []))
       = Panic ''unexpected end of input''
   \<and> policy_audits (db (snd (EvaluateAndAudit glob_fragment (fragment_engine True) request_s3
                               (store [policy_M, policy_A] []))))
       = []"
proof -
  let ?s = "store [policy_M, policy_A] []"
  have g: "glob_fragment (Resource policy_M) = Inl ''unexpected end of input''"
    by (simp add: glob_fragment_def glob_special_def policy_M_def)
  have n1: "Resource policy_M \<noteq> []" and n2: "Resource policy_M \<noteq> ''*''"
    by (simp_all add: policy_M_def)
  have l: "loadPolicies ''global'' (Action request_s3) ?s = (Inr (policy_M # []), ?s)"
    by (simp add: loadPolicies_def db_op_def store_def policy_M_def policy_A_def base_policy_def)
  have a: "policy_audits (db ?s) = []"
    by (simp add: store_def)
  from malformed_glob_panics [where gl = glob_fragment and p = policy_M and req = request_s3
      and e = "fragment_engine True", OF g n1 n2 l] a g
  show ?thesis
    by simp
qed

subsection \<open>Write-time validation against the engine's environment\<close>

text \<open>
  C6.  \<open>ValidateCEL\<close> checks expressions in an environment of eight variables: the
  engine's seven and \<open>request\<close>.  \<open>POST /policies\<close> with the expression
  \<open>request.subject.admin\<close> is accepted and persisted; in the engine the persisted
  expression does not compile, and a request it applies to is denied for that reason.
\<close>

theorem request_variable_passes_validation_only:
  "validate_decls = engine_decls @ [NewVar ''request'' (NewMapType decls_String decls_Dyn)]
   \<and> NewEvalEngine cel_fragment True = Inr (fragment_engine True)
   \<and> ValidateCEL cel_fragment (Expr policy_R) = None
   \<and> fst (Create cel_fragment stored_R \<lparr>Engine = True\<rparr>
            \<lparr>URL_Path = ''/policies'', Query_provider = ''aws'', Body = Some policy_R\<rparr>
            (store [] []))
       = http_JSON 201 (stored_R policy_R)
   \<and> policies (db (snd (Create cel_fragment stored_R \<lparr>Engine = True\<rparr>
            \<lparr>URL_Path = ''/policies'', Query_provider = ''aws'', Body = Some policy_R\<rparr>
            (store [] []))))
       = [stored_R policy_R]
   \<and> predicate_outcome (fragment_engine True) (stored_R policy_R) request_s3
        (store [stored_R policy_R] [])
       = CompileError (''undeclared reference to '' @ quoted ''request'')
   \<and> fst (evaluate glob_fragment (fragment_engine True) request_s3 (store [stored_R policy_R] []))
       = Returned (''deny'', Some (ID (stored_R policy_R)),
           ''Access denied by policy '' @ quoted ''R'' @ '': expression failed to compile'',
           [error_item (stored_R policy_R) ''policy expression failed to compile''
              (''compile: undeclared reference to '' @ quoted ''request'')], None)"
proof (intro conjI)
  show "validate_decls = engine_decls @ [NewVar ''request'' (NewMapType decls_String decls_Dyn)]"
    by (simp add: validate_decls_def engine_decls_def)
  show "NewEvalEngine cel_fragment True = Inr (fragment_engine True)"
    by (simp add: NewEvalEngine_def cel_fragment_def fragment_engine_def)
qed code_simp+

subsection \<open>What an update writes\<close>

lemma DB_First_Inr:
  assumes "DB_First pid s = (Inr row, s1)"
  shows "find (\<lambda>row. ID row = pid) (policies (db s)) = Some row
       \<and> policies (db s1) = policies (db s)"
proof -
  obtain f s0 where o: "db_op s = (f, s0)" by (cases "db_op s")
  from db_op_db [OF o] have p: "policies (db s0) = policies (db s)" by simp
  from assms o p show ?thesis
    by (cases f; cases "find (\<lambda>row. ID row = pid) (policies (db s))")
       (auto simp: DB_First_def)
qed

lemma DB_Updates_None:
  assumes "DB_Updates lib hookv existing inp now s1 = (None, s2)"
  shows "policies (db s2) =
           map (\<lambda>row. if ID row = ID existing
                       then (selected_columns inp row)\<lparr>UpdatedAt := now\<rparr> else row)
             (policies (db s1))"
proof -
  obtain f s0 where o: "db_op s1 = (f, s0)" by (cases "db_op s1")
  from db_op_db [OF o] have p: "policies (db s0) = policies (db s1)" by simp
  from assms o p show ?thesis
    by (cases "BeforeUpdate lib (hookv existing inp) (Expr inp \<noteq> Expr existing)"; cases f)
       (auto simp: DB_Updates_def)
qed

lemma find_map_ID:
  assumes "\<And>row. ID (f row) = ID row"
  shows "find (\<lambda>row. ID row = k) (map f rows) = map_option f (find (\<lambda>row. ID row = k) rows)"
  using assms by (induction rows) auto

lemma filter_map_others:
  assumes "\<And>row. ID (f row) = ID row" and "\<And>row. ID row \<noteq> k \<Longrightarrow> f row = row"
  shows "filter (\<lambda>row. ID row \<noteq> k) (map f rows) = filter (\<lambda>row. ID row \<noteq> k) rows"
  using assms by (induction rows) auto

lemma find_ID:
  "find (\<lambda>row. ID row = k) rows = Some row \<Longrightarrow> ID row = k"
  by (induction rows) (auto split: if_splits)

text \<open>
  C8, as the code has it.  A successful \<open>PUT /policies/{id}\<close> answers 200 with the row of
  that identity after the update: identity, \<open>created_at\<close> and \<open>condition\<close> are those of the
  row before; name, effect, provider (the query parameter when given), resource, actions,
  expression, metadata, enabled, priority and version are those of the request body, so
  version is overwritten with the body's value and not incremented; \<open>updated_at\<close> is the
  time of the update.  Rows of other identities are unchanged.
\<close>

theorem update_frame:
  assumes "Update lib hookv h r now s = (http_JSON code p', s')"
  shows "\<exists>pid old inp.
           tailID (URL_Path r) ''/policies/'' = Some pid
         \<and> find (\<lambda>row. ID row = pid) (policies (db s)) = Some old
         \<and> Body r = Some inp
         \<and> code = 200
         \<and> ID p' = ID old \<and> CreatedAt p' = CreatedAt old \<and> Condition p' = Condition old
         \<and> Name p' = Name inp \<and> Effect p' = Effect inp
         \<and> Provider p' = (if Query_provider r \<noteq> [] then Query_provider r else Provider inp)
         \<and> Resource p' = Resource inp \<and> Actions p' = Actions inp \<and> Expr p' = Expr inp
         \<and> Metadata p' = Metadata inp \<and> Enabled p' = Enabled inp
         \<and> Priority p' = Priority inp
         \<and> Version p' = Version inp
         \<and> UpdatedAt p' = now
         \<and> map ID (policies (db s')) = map ID (policies (db s))
         \<and> filter (\<lambda>row. ID row \<noteq> pid) (policies (db s'))
             = filter (\<lambda>row. ID row \<noteq> pid) (policies (db s))"
proof -
  obtain pid where t: "tailID (URL_Path r) ''/policies/'' = Some pid"
    using assms by (cases "tailID (URL_Path r) ''/policies/''") (auto simp: Update_def)
  obtain f1 s1 where d1: "DB_First pid s = (f1, s1)"
    by (cases "DB_First pid s")
  obtain existing where f1: "f1 = Inr existing"
    using assms t d1 by (cases f1) (auto simp: Update_def split: gorm_error.splits)
  obtain inp where b: "Body r = Some inp"
    using assms t d1 f1 by (cases "Body r") (auto simp: Update_def)
  have v: "\<not> (Query_provider r \<noteq> [] \<and> \<not> valid_provider (Query_provider r))"
    using assms t d1 f1 b by (auto simp: Update_def split: if_splits)
  define inp' where
    "inp' = (if Query_provider r \<noteq> [] then inp\<lparr>Provider := Query_provider r\<rparr> else inp)
              \<lparr>ID := ID existing, CreatedAt := CreatedAt existing\<rparr>"
  obtain u s2 where d2: "DB_Updates lib hookv existing inp' now s1 = (u, s2)"
    by (cases "DB_Updates lib hookv existing inp' now s1")
  have rest: "(case u of
                 Some err \<Rightarrow> (http_Error 400 err, s2)
               | None \<Rightarrow>
                   (case DB_First (ID existing) s2 of
                      (Inl err, s3) \<Rightarrow> (http_Error 500 (Error_text err), s3)
                    | (Inr existing', s3) \<Rightarrow>
                        (http_JSON 200 existing',
                         if Engine h then Invalidate (ID existing') s3 else s3)))
              = (http_JSON code p', s')"
    using assms t d1 f1 b v d2 unfolding Update_def inp'_def
    by (simp add: Let_def)
  have u: "u = None"
    using rest by (cases u) auto
  obtain f3 s3 where d3: "DB_First (ID existing) s2 = (f3, s3)"
    by (cases "DB_First (ID existing) s2")
  from rest u d3 have f3: "f3 = Inr p'" and code: "code = 200"
    and s': "s' = (if Engine h then Invalidate (ID p') s3 else s3)"
    by (cases f3; auto)+
  let ?upd = "\<lambda>row. if ID row = ID existing
                     then (selected_columns inp' row)\<lparr>UpdatedAt := now\<rparr> else row"
  have idu: "\<And>row. ID (?upd row) = ID row"
    by (simp add: selected_columns_def)
  from DB_First_Inr [OF d1 [unfolded f1]]
  have old: "find (\<lambda>row. ID row = pid) (policies (db s)) = Some existing"
    and p1: "policies (db s1) = policies (db s)"
    by simp_all
  from find_ID [OF old] have ide: "ID existing = pid" .
  from DB_Updates_None [OF d2 [unfolded u]] p1
  have p2: "policies (db s2) = map ?upd (policies (db s))"
    by simp
  from DB_First_Inr [OF d3 [unfolded f3]]
  have new: "find (\<lambda>row. ID row = ID existing) (policies (db s2)) = Some p'"
    and p3: "policies (db s3) = policies (db s2)"
    by simp_all
  from new p2 have "find (\<lambda>row. ID row = ID existing) (map ?upd (policies (db s))) = Some p'"
    by simp
  with find_map_ID [of ?upd "ID existing" "policies (db s)", OF idu] old ide
  have p': "p' = (selected_columns inp' existing)\<lparr>UpdatedAt := now\<rparr>"
    by simp
  have ps': "policies (db s') = map ?upd (policies (db s))"
    using s' p3 p2 by (simp add: Invalidate_def)
  have ids: "map ID (policies (db s')) = map ID (policies (db s))"
    unfolding ps' using idu by (simp add: comp_def)
  have others: "filter (\<lambda>row. ID row \<noteq> pid) (policies (db s'))
                  = filter (\<lambda>row. ID row \<noteq> pid) (policies (db s))"
    unfolding ps' ide
    by (rule filter_map_others) (simp_all add: selected_columns_def)
  from p' have fields:
    "ID p' = ID existing" "CreatedAt p' = CreatedAt existing" "Condition p' = Condition existing"
    "Name p' = Name inp" "Effect p' = Effect inp"
    "Provider p' = (if Query_provider r \<noteq> [] then Query_provider r else Provider inp)"
    "Resource p' = Resource inp" "Actions p' = Actions inp" "Expr p' = Expr inp"
    "Metadata p' = Metadata inp" "Enabled p' = Enabled inp" "Priority p' = Priority inp"
    "Version p' = Version inp" "UpdatedAt p' = now"
    by (simp_all add: selected_columns_def inp'_def)
  from t old b code fields ids others show ?thesis
    by blast
qed

text \<open>
  The claim as stated fails: the row is at version 3, the body gives no version, and the
  updated row is at version 0, not 4.
\<close>

theorem update_increments_version_counterexample:
  "fst (Update cel_fragment (\<lambda>model dest. model) \<lparr>Engine = True\<rparr> put_A 42 (store [row_A3] []))
     = http_JSON 200
         (row_A3\<lparr>Name := ''A2'', Resource := ''aws:s3:bucket/a/*'', Version := 0, UpdatedAt := 42\<rparr>)
   \<and> Version row_A3 = 3
   \<and> Version (row_A3\<lparr>Name := ''A2'', Resource := ''aws:s3:bucket/a/*'', Version := 0,
                      UpdatedAt := 42\<rparr>) \<noteq> Version row_A3 + 1"
  by code_simp

theorem update_frame_witness:
  "fst (Update cel_fragment (\<lambda>model dest. model) \<lparr>Engine = True\<rparr> put_A 42 (store [row_A3] []))
     = http_JSON 200
         (row_A3\<lparr>Name := ''A2'', Resource := ''aws:s3:bucket/a/*'', Version := 0, UpdatedAt := 42\<rparr>)
   \<and> ID (row_A3\<lparr>Name := ''A2'', Resource := ''aws:s3:bucket/a/*'', Version := 0, UpdatedAt := 42\<rparr>)
       = ID row_A3
   \<and> CreatedAt (row_A3\<lparr>Name := ''A2'', Resource := ''aws:s3:bucket/a/*'', Version := 0,
                        UpdatedAt := 42\<rparr>) = CreatedAt row_A3
   \<and> map ID (policies (db (snd (Update cel_fragment (\<lambda>model dest. model) \<lparr>Engine = True\<rparr>
                                    put_A 42 (store [row_A3] [])))))
       = [ID row_A3]"
proof -
  let ?U = "Update cel_fragment (\<lambda>model dest. model) \<lparr>Engine = True\<rparr> put_A 42 (store [row_A3] [])"
  let ?P = "row_A3\<lparr>Name := ''A2'', Resource := ''aws:s3:bucket/a/*'', Version := 0, UpdatedAt := 42\<rparr>"
  have f: "fst ?U = http_JSON 200 ?P"
    by code_simp
  then have u: "?U = (http_JSON 200 ?P, snd ?U)"
    by (metis prod.collapse)
  have st: "policies (db (store [row_A3] [])) = [row_A3]"
    by (simp add: store_def)
  from update_frame [OF u] obtain pid old inp where
    t: "tailID (URL_Path put_A) ''/policies/'' = Some pid"
    and o: "find (\<lambda>row. ID row = pid) (policies (db (store [row_A3] []))) = Some old"
    and b: "Body put_A = Some inp"
    and i: "ID ?P = ID old" and c: "CreatedAt ?P = CreatedAt old"
    and m: "map ID (policies (db (snd ?U))) = map ID (policies (db (store [row_A3] [])))"
    by blast
  from o st have "old = row_A3"
    by (simp split: if_splits)
  with i c m st f show ?thesis
    by simp
qed

end
